theory Spec2Isabelle
  imports Main "HOL-Library.AList" "HOL-Library.Sublist"
begin

section \<open>Python strings, dictionaries and paths\<close>

text \<open>
  The generator of \<^verbatim>\<open>core/site_generator.py\<close> works on Python \<^verbatim>\<open>str\<close> values. A string
  is modelled as a \<^typ>\<open>string\<close>, one \<^typ>\<open>char\<close> per code point, so the model covers the
  texts whose code points are below 256. The methods the generator calls are written out
  below with the behaviour of CPython.
\<close>

definition startswith :: "string \<Rightarrow> string \<Rightarrow> bool" where
  "startswith s p = prefix p s"

definition endswith :: "string \<Rightarrow> string \<Rightarrow> bool" where
  "endswith s p = suffix p s"

text \<open>
  \<^verbatim>\<open>s.replace(old, new)\<close>: the occurrences of \<open>old\<close> are found from the left and do not
  overlap. With an empty \<open>old\<close> Python puts \<open>new\<close> before every character and at the end.
\<close>

function replace_str :: "string \<Rightarrow> string \<Rightarrow> string \<Rightarrow> string" where
  "replace_str old new s =
     (if old = [] then new @ concat (map (\<lambda>c. c # new) s)
      else if s = [] then []
      else if prefix old s then new @ replace_str old new (drop (length old) s)
      else hd s # replace_str old new (tl s))"
  by pat_completeness auto
termination
  by (relation "measure (\<lambda>(old, new, s). length s)") auto

declare replace_str.simps [simp del]

text \<open>
  \<^verbatim>\<open>s.split(sep)\<close> for a separator of one character: a string with \<open>n\<close> separators has
  \<open>n + 1\<close> fields, so the result is never empty.
\<close>

fun split_on :: "char \<Rightarrow> string \<Rightarrow> string list" where
  "split_on sep [] = [[]]"
| "split_on sep (c # cs) =
     (if c = sep then [] # split_on sep cs
      else (case split_on sep cs of
              [] \<Rightarrow> [[c]]
            | p # ps \<Rightarrow> (c # p) # ps))"

text \<open>\<^verbatim>\<open>s.split(sep, 1)\<close>: two fields when the separator occurs, the string itself otherwise.\<close>

definition split_once :: "char \<Rightarrow> string \<Rightarrow> string list" where
  "split_once sep s =
     (if sep \<in> set s
      then [takeWhile (\<lambda>c. c \<noteq> sep) s, tl (dropWhile (\<lambda>c. c \<noteq> sep) s)]
      else [s])"

text \<open>
  \<^verbatim>\<open>s.strip()\<close> removes white space at both ends. Below 256 the code points that
  \<^verbatim>\<open>str.isspace\<close> accepts are 9 to 13, 28 to 32, 133 and 160.
\<close>

definition isspace :: "char \<Rightarrow> bool" where
  "isspace c = ((of_char c :: nat) \<in> {9, 10, 11, 12, 13, 28, 29, 30, 31, 32, 133, 160})"

definition strip :: "string \<Rightarrow> string" where
  "strip s = rev (dropWhile isspace (rev (dropWhile isspace s)))"

text \<open>\<^verbatim>\<open>a in s\<close>: the text \<open>a\<close> occurs in \<open>s\<close>.\<close>

fun occurs_in :: "string \<Rightarrow> string \<Rightarrow> bool" where
  "occurs_in a [] = (a = [])"
| "occurs_in a (c # cs) = (prefix a (c # cs) \<or> occurs_in a cs)"

text \<open>\<^verbatim>\<open>sep.join(xs)\<close>.\<close>

fun join :: "string \<Rightarrow> string list \<Rightarrow> string" where
  "join sep [] = []"
| "join sep [x] = x"
| "join sep (x # y # ys) = x @ sep @ join sep (y # ys)"

text \<open>
  \<^verbatim>\<open>os.path.join(path, *parts)\<close> of \<^verbatim>\<open>posixpath\<close>: an absolute part replaces what came
  before it, and a separator is added unless the path so far is empty or ends with one.
\<close>

fun path_join :: "string \<Rightarrow> string list \<Rightarrow> string" where
  "path_join path [] = path"
| "path_join path (b # bs) =
     path_join (if startswith b ''/'' then b
                else if path = [] \<or> endswith path ''/'' then path @ b
                else path @ ''/'' @ b) bs"

text \<open>
  A Python \<^verbatim>\<open>dict\<close> of strings is an association list in insertion order with one entry
  for each key: \<^verbatim>\<open>d[k] = v\<close> replaces the value of a key that is present and appends a
  new key at the end, \<^verbatim>\<open>len(d)\<close> is the number of keys, and \<^verbatim>\<open>d.get(k)\<close> is
  \<^verbatim>\<open>None\<close> for a key that is absent.
\<close>

type_synonym metadata = "(string \<times> string) list"

definition dict_set :: "metadata \<Rightarrow> string \<Rightarrow> string \<Rightarrow> metadata" where
  "dict_set d k v = AList.update k v d"

definition dict_get :: "metadata \<Rightarrow> string \<Rightarrow> string option" where
  "dict_get d k = map_of d k"

section \<open>Configuration\<close>

text \<open>
  \<^verbatim>\<open>core.config.CONFIG\<close> is not part of the sources at hand, so the values the generator
  reads from it are the fields of a record. \<open>DEBUG\<close> and \<open>CLIENT_SIDE_ROUTING\<close> hold
  \<^verbatim>\<open>bool(CONFIG['SETTINGS'].getboolean(...))\<close>.
\<close>

record config =
  INPUT_DIR :: string
  OUTPUT_DIR :: string
  STATIC_DIR :: string
  DEBUG :: bool
  CLIENT_SIDE_ROUTING :: bool
  CSS_OUTPUT_STYLE :: string
  POST_LIST_TARGET :: string

section \<open>Output router\<close>

text \<open>
  \<^verbatim>\<open>determine_html_subdir(metadata)\<close>, lines 157 to 163. Both tests read
  \<^verbatim>\<open>metadata.get('template')\<close>, which is \<^verbatim>\<open>None\<close> when the key is absent.
\<close>

definition determine_html_subdir :: "config \<Rightarrow> metadata \<Rightarrow> string" where
  "determine_html_subdir cfg metadata =
     (if dict_get metadata ''template'' = Some ''post.html''
        then path_join (OUTPUT_DIR cfg) [''html'', ''blog'']
      else if dict_get metadata ''template'' \<noteq> Some ''default.html''
        then path_join (OUTPUT_DIR cfg) [''html'']
      else OUTPUT_DIR cfg)"

section \<open>Front-matter parser\<close>

text \<open>
  The loop of \<^verbatim>\<open>convert_to_html\<close>, lines 99 to 107, with its two variables \<open>count\<close> and
  \<open>metadata\<close>. A line that starts with the marker is counted; the second one ends the
  loop. Every other line met on the way, whatever the count, is split at its first colon
  and stored when it has one.
\<close>

fun scan_lines :: "nat \<Rightarrow> metadata \<Rightarrow> string list \<Rightarrow> metadata" where
  "scan_lines count metadata [] = metadata"
| "scan_lines count metadata (line # lines) =
     (if startswith line ''---'' then
        (if count + 1 = 2 then metadata
         else scan_lines (count + 1) metadata lines)
      else (let parts = split_once CHR '':'' line in
            if length parts = 2
            then scan_lines count (dict_set metadata (strip (parts ! 0)) (strip (parts ! 1))) lines
            else scan_lines count metadata lines))"

text \<open>
  \<^verbatim>\<open>convert_to_html(input_text)\<close>, lines 94 to 112. The Markdown converter is a library:
  it is the parameter \<open>markdown\<close>, applied to the text of the lines from index
  \<^verbatim>\<open>len(metadata) + 2\<close> on (a slice past the end is empty, as \<^const>\<open>drop\<close> is).
\<close>

definition convert_to_html :: "(string \<Rightarrow> string) \<Rightarrow> string \<Rightarrow> metadata \<times> string" where
  "convert_to_html markdown input_text =
     (let lines = split_on CHR ''\<newline>'' input_text;
          metadata = scan_lines 0 [] lines;
          html = markdown (join ''\<newline>'' (drop (length metadata + 2) lines))
      in (metadata, html))"

text \<open>
  The words of the claims about the parser: a delimiter line, a line with a colon, a line
  the parser skips, and the key and value the parser stores for a line.
\<close>

definition is_delimiter :: "string \<Rightarrow> bool" where
  "is_delimiter line = startswith line ''---''"

definition has_colon :: "string \<Rightarrow> bool" where
  "has_colon line = (CHR '':'' \<in> set line)"

definition is_skipped :: "string \<Rightarrow> bool" where
  "is_skipped line = (\<not> has_colon line)"

definition meta_key :: "string \<Rightarrow> string" where
  "meta_key line = strip (takeWhile (\<lambda>c. c \<noteq> CHR '':'') line)"

definition meta_value :: "string \<Rightarrow> string" where
  "meta_value line = strip (tl (dropWhile (\<lambda>c. c \<noteq> CHR '':'') line))"

definition add_entry :: "string \<Rightarrow> metadata \<Rightarrow> metadata" where
  "add_entry line metadata =
     (if has_colon line then dict_set metadata (meta_key line) (meta_value line) else metadata)"

section \<open>Content renderer\<close>

text \<open>
  Exceptions are values. \<open>TemplateNotFound\<close> is raised by \<^verbatim>\<open>env.get_template\<close>,
  \<open>TypeError\<close> by a call that gets one keyword twice, \<open>CompileError\<close> by the stylesheet
  compiler, and \<open>OSError\<close> stands for a failure of the file system.
\<close>

datatype error =
    TemplateNotFound string
  | TypeError string
  | CompileError string
  | OSError string

text \<open>
  A loaded template is its \<^verbatim>\<open>render\<close> method: from the keyword arguments to the text, or
  to the exception the engine raises.
\<close>

type_synonym template = "metadata \<Rightarrow> error + string"

definition template_name :: "metadata \<Rightarrow> string" where
  "template_name metadata =
     (case dict_get metadata ''template'' of None \<Rightarrow> ''default.html'' | Some t \<Rightarrow> t)"

text \<open>
  \<^verbatim>\<open>render(metadata, html)\<close>, lines 115 to 120. The template is looked up first. The call
  \<^verbatim>\<open>template.render(content=html, **metadata)\<close> is then put together by Python itself, and
  two keys of \<open>metadata\<close> make it a \<^verbatim>\<open>TypeError\<close> before the engine runs: the key
  \<open>content\<close>, which repeats the keyword written in the call (multiple values for a
  keyword argument), and the key \<open>self\<close>, which names the first parameter of the bound
  method \<^verbatim>\<open>Template.render(self, *args, **kwargs)\<close> of Jinja2 (multiple values for the
  argument). The repeated keyword is found first, when the keywords are merged. Every
  other key reaches the engine through \<^verbatim>\<open>**kwargs\<close>.
\<close>

definition render :: "(string \<Rightarrow> template option) \<Rightarrow> metadata \<Rightarrow> string \<Rightarrow> error + string" where
  "render get_template metadata html =
     (case get_template (template_name metadata) of
        None \<Rightarrow> Inl (TemplateNotFound (template_name metadata))
      | Some template \<Rightarrow>
          (if ''content'' \<in> set (map fst metadata) then Inl (TypeError ''content'')
           else if ''self'' \<in> set (map fst metadata) then Inl (TypeError ''self'')
           else template ((''content'', html) # metadata)))"

section \<open>Content injector\<close>

text \<open>
  Modelled from the spec: \<^verbatim>\<open>core/html_editor.py\<close> (the class \<^verbatim>\<open>HtmlEditor\<close> and its method
  \<^verbatim>\<open>add_html\<close>) is missing from the sources. The specification gives its contract: locate
  the first occurrence of the anchor; insert the fragment immediately before it when
  \<open>prepend\<close> is true and immediately after it when false; return the input unchanged when
  the anchor is not found. The fields of the record are the keyword arguments \<open>html\<close>,
  \<open>anchor\<close>, \<open>element\<close> and \<open>prepend\<close> with which \<^verbatim>\<open>add_posts\<close> and \<^verbatim>\<open>add_utils\<close> call the
  constructor.
\<close>

record html_editor =
  ed_html :: string
  ed_anchor :: string
  ed_element :: string
  ed_prepend :: bool

text \<open>
  Modelled from the spec: the anchor-find-and-splice primitive of section 4.3, which is
  not in the sources. \<open>splice a e p s\<close> looks for the first occurrence of the anchor \<open>a\<close>
  in \<open>s\<close> and puts the fragment \<open>e\<close> before it (\<open>p\<close> true) or after it (\<open>p\<close> false);
  without an occurrence \<open>s\<close> is returned as it is.
\<close>

fun splice :: "string \<Rightarrow> string \<Rightarrow> bool \<Rightarrow> string \<Rightarrow> string" where
  "splice a e p [] = (if a = [] then e else [])"
| "splice a e p (c # cs) =
     (if prefix a (c # cs)
      then (if p then e @ c # cs else a @ e @ drop (length a) (c # cs))
      else c # splice a e p cs)"

text \<open>
  Modelled from the spec: the method \<^verbatim>\<open>HtmlEditor.add_html\<close>, which is not in the sources,
  is the primitive applied to the four fields.
\<close>

definition add_html :: "html_editor \<Rightarrow> string" where
  "add_html editor =
     splice (ed_anchor editor) (ed_element editor) (ed_prepend editor) (ed_html editor)"

text \<open>\<^verbatim>\<open>add_posts(input_text, post_list)\<close>, lines 123 to 131.\<close>

definition add_posts :: "config \<Rightarrow> string \<Rightarrow> string \<Rightarrow> string" where
  "add_posts cfg input_text post_list =
     add_html \<lparr>ed_html = input_text, ed_anchor = POST_LIST_TARGET cfg,
               ed_element = post_list, ed_prepend = False\<rparr>"

text \<open>\<^verbatim>\<open>add_utils(input_text)\<close>, lines 134 to 142, and the script tag it inserts.\<close>

definition dev_script :: string where
  "dev_script = ''<script type='module' src='' @ [CHR 0x22] @ ''/js/dev.js'' @ [CHR 0x22] @
                ''></script>\<newline>''"

definition add_utils :: "string \<Rightarrow> string" where
  "add_utils input_text =
     add_html \<lparr>ed_html = input_text, ed_anchor = ''</body>'', ed_element = dev_script,
               ed_prepend = True\<rparr>"

text \<open>\<^verbatim>\<open>inject_html(output_text, post_list)\<close>, lines 51 to 58.\<close>

definition inject_html :: "config \<Rightarrow> string \<Rightarrow> string \<Rightarrow> string" where
  "inject_html cfg output_text post_list =
     (let updated_html = add_posts cfg output_text post_list in
      if DEBUG cfg = True \<and> CLIENT_SIDE_ROUTING cfg = False
      then add_utils updated_html
      else updated_html)"

section \<open>Post index collector\<close>

text \<open>
  \<^verbatim>\<open>str.title()\<close> reads three tables of the Unicode database of the Python runtime: the
  title-case image of a character, its lower-case image (both may be several characters)
  and whether the character is cased. The tables are not part of the repository, so they
  are a parameter. An image is a text of the model: the tables describe \<^verbatim>\<open>str.title\<close> on
  the characters whose images have code points below 256.
\<close>

record case_tables =
  uc_title :: "char \<Rightarrow> string"
  uc_lower :: "char \<Rightarrow> string"
  uc_cased :: "char \<Rightarrow> bool"

text \<open>
  \<^verbatim>\<open>str.title()\<close> as CPython computes it, from left to right with the flag
  \<open>previous_is_cased\<close>: a character that follows a cased character is replaced by its
  lower-case image, any other character by its title-case image.
\<close>

fun title_from :: "case_tables \<Rightarrow> bool \<Rightarrow> string \<Rightarrow> string" where
  "title_from tables previous_is_cased [] = []"
| "title_from tables previous_is_cased (c # cs) =
     (if previous_is_cased then uc_lower tables c else uc_title tables c) @
     title_from tables (uc_cased tables c) cs"

definition title :: "case_tables \<Rightarrow> string \<Rightarrow> string" where
  "title tables s = title_from tables False s"

text \<open>
  The body of the loop of \<^verbatim>\<open>collect_posts\<close>, lines 149 to 153, with the accumulator
  \<open>contents\<close>; \<open>ext\<close> is the constant \<^verbatim>\<open>'html'\<close> of line 148.
\<close>

fun collect_loop :: "case_tables \<Rightarrow> string \<Rightarrow> string list \<Rightarrow> string" where
  "collect_loop tables contents [] = contents"
| "collect_loop tables contents (filename # filenames) =
     (let name = hd (split_on CHR ''.'' filename);
          ext = ''html''
      in collect_loop tables
           (contents @ ''<a href='/html/blog/'' @ name @ ''.'' @ ext @ ''' class='post-link'>'' @
              replace_str ''-'' '' '' (title tables name) @ ''</a>'')
           filenames)"

text \<open>
  The words of the claim about the collector. The logical name of a file is the text
  before its first dot. The link text of the claim is the name with hyphens replaced by
  spaces and each word capitalized: the words are what the spaces separate, and a
  capitalized word has the title-case image of its first character followed by the
  lower-case images of the others. \<open>post_link\<close> is the fragment the claim describes.
\<close>

definition logical_name :: "string \<Rightarrow> string" where
  "logical_name filename = takeWhile (\<lambda>c. c \<noteq> CHR ''.'') filename"

definition hyphen_to_space :: "char \<Rightarrow> char" where
  "hyphen_to_space c = (if c = CHR ''-'' then CHR '' '' else c)"

definition hyphens_to_spaces :: "string \<Rightarrow> string" where
  "hyphens_to_spaces s = map hyphen_to_space s"





text \<open>
  What the code computes, said without the loop and its flag: in the title case of a
  text, the character at index \<open>i\<close> is replaced by its lower-case image when the
  character at index \<open>i - 1\<close> is cased, and by its title-case image otherwise.
  \<open>titled_link\<close> is the fragment whose text is the title case of the name with its
  hyphens replaced by spaces.
\<close>

definition title_case :: "case_tables \<Rightarrow> string \<Rightarrow> string" where
  "title_case tables s =
     concat (map (\<lambda>i. if 0 < i \<and> uc_cased tables (s ! (i - 1))
                        then uc_lower tables (s ! i) else uc_title tables (s ! i))
               [0..<length s])"

definition titled_link :: "case_tables \<Rightarrow> string \<Rightarrow> string" where
  "titled_link tables filename =
     ''<a href='/html/blog/'' @ logical_name filename @ ''.html' class='post-link'>'' @
     hyphens_to_spaces (title_case tables (logical_name filename)) @ ''</a>''"




section \<open>The build and its collaborators\<close>

text \<open>
  The libraries and helpers the build calls are parameters: the Markdown converter, the
  template loader, the case tables of the runtime, \<^verbatim>\<open>os.listdir\<close>, \<^verbatim>\<open>read_file\<close> and \<^verbatim>\<open>write_file\<close> of
  \<^verbatim>\<open>core.util\<close> (not part of the sources at hand), \<^verbatim>\<open>shutil.rmtree\<close> with
  \<^verbatim>\<open>ignore_errors=True\<close> (which never raises), \<^verbatim>\<open>os.makedirs\<close>, \<^verbatim>\<open>os.mkdir\<close>,
  \<^verbatim>\<open>shutil.copyfile\<close> and \<^verbatim>\<open>sass.compile\<close>. Each works on a state \<open>'fs\<close> of the file
  system and returns its value, or the exception it raises, with the new state.
\<close>

record 'fs services =
  ext_markdown :: "string \<Rightarrow> string"
  ext_get_template :: "string \<Rightarrow> template option"
  ext_unicode :: case_tables
  ext_listdir :: "string \<Rightarrow> 'fs \<Rightarrow> (error + string list) \<times> 'fs"
  ext_read_file :: "string \<Rightarrow> 'fs \<Rightarrow> (error + string) \<times> 'fs"
  ext_write_file :: "string \<Rightarrow> string \<Rightarrow> 'fs \<Rightarrow> (error + unit) \<times> 'fs"
  ext_rmtree :: "string \<Rightarrow> 'fs \<Rightarrow> 'fs"
  ext_makedirs :: "string \<Rightarrow> 'fs \<Rightarrow> (error + unit) \<times> 'fs"
  ext_mkdir :: "string \<Rightarrow> 'fs \<Rightarrow> (error + unit) \<times> 'fs"
  ext_copyfile :: "string \<Rightarrow> string \<Rightarrow> 'fs \<Rightarrow> (error + unit) \<times> 'fs"
  ext_sass_compile :: "string \<Rightarrow> string \<Rightarrow> string \<Rightarrow> 'fs \<Rightarrow> (error + unit) \<times> 'fs"

text \<open>
  Statements in sequence: an exception of the first ends the computation with the state
  reached, and no handler stands between a statement and the caller unless written out.
\<close>

definition and_then ::
  "('s \<Rightarrow> (error + 'a) \<times> 's) \<Rightarrow> ('a \<Rightarrow> 's \<Rightarrow> (error + 'b) \<times> 's) \<Rightarrow> 's \<Rightarrow> (error + 'b) \<times> 's" where
  "and_then m k s = (case m s of (Inl e, s') \<Rightarrow> (Inl e, s') | (Inr x, s') \<Rightarrow> k x s')"

text \<open>\<^verbatim>\<open>collect_posts()\<close>, lines 145 to 154.\<close>

definition collect_posts :: "'fs services \<Rightarrow> config \<Rightarrow> 'fs \<Rightarrow> (error + string) \<times> 'fs" where
  "collect_posts ext cfg =
     and_then (ext_listdir ext (path_join (INPUT_DIR cfg) [''blog'']))
       (\<lambda>filenames fs. (Inr (collect_loop (ext_unicode ext) [] filenames), fs))"

text \<open>\<^verbatim>\<open>reset_dist()\<close>, lines 33 to 36.\<close>

definition reset_dist :: "'fs services \<Rightarrow> config \<Rightarrow> 'fs \<Rightarrow> (error + unit) \<times> 'fs" where
  "reset_dist ext cfg =
     and_then (\<lambda>fs. (Inr (), ext_rmtree ext (OUTPUT_DIR cfg) fs))
       (\<lambda>_. and_then (ext_makedirs ext (OUTPUT_DIR cfg))
         (\<lambda>_. ext_makedirs ext (path_join (OUTPUT_DIR cfg) [''html'', ''blog''])))"

text \<open>
  The body of the loop of \<^verbatim>\<open>convert_markdown\<close> for one Markdown file, lines 43 to 48:
  read, parse, render, inject, route, write. \<open>output_filename\<close> is the expression
  \<^verbatim>\<open>filename.replace('.md', '.html')\<close> of line 48.
\<close>

definition output_filename :: "string \<Rightarrow> string" where
  "output_filename filename = replace_str ''.md'' ''.html'' filename"

definition convert_file ::
  "'fs services \<Rightarrow> config \<Rightarrow> string \<Rightarrow> string \<Rightarrow> string \<Rightarrow> 'fs \<Rightarrow> (error + unit) \<times> 'fs" where
  "convert_file ext cfg input_dir post_list filename =
     and_then (ext_read_file ext (path_join input_dir [filename]))
       (\<lambda>markdown_input.
          let (metadata, html) = convert_to_html (ext_markdown ext) markdown_input in
          and_then (\<lambda>fs. (render (ext_get_template ext) metadata html, fs))
            (\<lambda>output_text.
               let amended_output_text = inject_html cfg output_text post_list;
                   write_dir = determine_html_subdir cfg metadata
               in ext_write_file ext (path_join write_dir [output_filename filename])
                    amended_output_text))"

text \<open>The loop of \<^verbatim>\<open>convert_markdown\<close>, lines 41 and 42, over the listing of the directory.\<close>

fun convert_files ::
  "'fs services \<Rightarrow> config \<Rightarrow> string \<Rightarrow> string \<Rightarrow> string list \<Rightarrow> 'fs \<Rightarrow> (error + unit) \<times> 'fs" where
  "convert_files ext cfg input_dir post_list [] fs = (Inr (), fs)"
| "convert_files ext cfg input_dir post_list (filename # filenames) fs =
     (if endswith filename ''.md''
      then (case convert_file ext cfg input_dir post_list filename fs of
              (Inl e, fs') \<Rightarrow> (Inl e, fs')
            | (Inr _, fs') \<Rightarrow> convert_files ext cfg input_dir post_list filenames fs')
      else convert_files ext cfg input_dir post_list filenames fs)"

definition convert_markdown ::
  "'fs services \<Rightarrow> config \<Rightarrow> string \<Rightarrow> string \<Rightarrow> 'fs \<Rightarrow> (error + unit) \<times> 'fs" where
  "convert_markdown ext cfg input_dir post_list =
     and_then (ext_listdir ext input_dir) (convert_files ext cfg input_dir post_list)"

text \<open>\<^verbatim>\<open>copy_static_files(ext)\<close>, lines 61 to 72; the argument is called \<open>kind\<close> here.\<close>

fun copy_files ::
  "'fs services \<Rightarrow> string \<Rightarrow> string \<Rightarrow> string list \<Rightarrow> 'fs \<Rightarrow> (error + unit) \<times> 'fs" where
  "copy_files ext scripts_src scripts_dst [] fs = (Inr (), fs)"
| "copy_files ext scripts_src scripts_dst (filename # filenames) fs =
     (case ext_copyfile ext (path_join scripts_src [filename]) (path_join scripts_dst [filename]) fs of
        (Inl e, fs') \<Rightarrow> (Inl e, fs')
      | (Inr _, fs') \<Rightarrow> copy_files ext scripts_src scripts_dst filenames fs')"

definition copy_static_files ::
  "'fs services \<Rightarrow> config \<Rightarrow> string \<Rightarrow> 'fs \<Rightarrow> (error + unit) \<times> 'fs" where
  "copy_static_files ext cfg kind =
     (let scripts_src = path_join (STATIC_DIR cfg) [kind];
          scripts_dst = path_join (OUTPUT_DIR cfg) [kind]
      in and_then (ext_mkdir ext scripts_dst)
           (\<lambda>_. and_then (ext_listdir ext scripts_src) (copy_files ext scripts_src scripts_dst)))"

text \<open>
  \<^verbatim>\<open>compile_sass()\<close>, lines 75 to 91. Only \<^verbatim>\<open>sass.CompileError\<close> is caught (and printed);
  any other exception goes on to the caller.
\<close>

definition compile_sass :: "'fs services \<Rightarrow> config \<Rightarrow> 'fs \<Rightarrow> (error + unit) \<times> 'fs" where
  "compile_sass ext cfg fs =
     (let input_dir = path_join (STATIC_DIR cfg) [''scss''];
          output_dir = path_join (OUTPUT_DIR cfg) [''css''];
          style = (if DEBUG cfg = True then ''expanded'' else CSS_OUTPUT_STYLE cfg)
      in case ext_sass_compile ext input_dir output_dir style fs of
           (Inl (CompileError e), fs') \<Rightarrow> (Inr (), fs')
         | (r, fs') \<Rightarrow> (r, fs'))"

text \<open>
  \<^verbatim>\<open>build_site()\<close>, lines 18 to 30. The state of a build is the file system together with
  the list of the stages entered so far, which \<open>in_stage\<close> extends when a call starts;
  the names of the stages are those of the specification. The two readings of the clock
  and the line printed at the end are left out.
\<close>

datatype stage =
    ResetOutputTree
  | CollectPostIndex
  | ConvertMainDir
  | ConvertBlogDir
  | CopyStaticJS
  | CopyStaticImg
  | CompileStylesheets

definition in_stage ::
  "stage \<Rightarrow> ('fs \<Rightarrow> (error + 'a) \<times> 'fs) \<Rightarrow> stage list \<times> 'fs \<Rightarrow> (error + 'a) \<times> stage list \<times> 'fs" where
  "in_stage st m = (\<lambda>(entered, fs). case m fs of (r, fs') \<Rightarrow> (r, entered @ [st], fs'))"

definition build_site ::
  "'fs services \<Rightarrow> config \<Rightarrow> 'fs \<Rightarrow> (error + unit) \<times> stage list \<times> 'fs" where
  "build_site ext cfg fs =
     and_then (in_stage CollectPostIndex (collect_posts ext cfg)) (\<lambda>posts.
     and_then (in_stage ResetOutputTree (reset_dist ext cfg)) (\<lambda>_.
     and_then (in_stage ConvertMainDir (convert_markdown ext cfg (INPUT_DIR cfg) posts)) (\<lambda>_.
     and_then (in_stage ConvertBlogDir
                 (convert_markdown ext cfg (path_join (INPUT_DIR cfg) [''blog'']) posts)) (\<lambda>_.
     and_then (in_stage CopyStaticJS (copy_static_files ext cfg ''js'')) (\<lambda>_.
     and_then (in_stage CopyStaticImg (copy_static_files ext cfg ''img'')) (\<lambda>_.
     in_stage CompileStylesheets (compile_sass ext cfg)))))))
     ([], fs)"

definition stages_entered :: "(error + 'a) \<times> stage list \<times> 'fs \<Rightarrow> stage list" where
  "stages_entered r = fst (snd r)"

text \<open>The order in which \<^verbatim>\<open>build_site\<close> calls the stages, and the order the specification gives.\<close>

definition code_order :: "stage list" where
  "code_order = [CollectPostIndex, ResetOutputTree, ConvertMainDir, ConvertBlogDir,
                 CopyStaticJS, CopyStaticImg, CompileStylesheets]"

definition spec_order :: "stage list" where
  "spec_order = [ResetOutputTree, CollectPostIndex, ConvertMainDir, ConvertBlogDir,
                 CopyStaticJS, CopyStaticImg, CompileStylesheets]"

section \<open>An example site\<close>

text \<open>
  The closed examples below run the generator on a small site. Its collaborators keep a
  journal: every call of the file system is appended to a list of events, directory
  listings and file contents come from two tables, the Markdown converter returns its
  input, and the two templates \<open>default.html\<close> and \<open>post.html\<close> put the variable
  \<open>content\<close> in front of the post list target \<open><!--posts-->\<close> inside a body element.
\<close>

datatype event =
    Listdir string
  | ReadFile string
  | WriteFile string string
  | Rmtree string
  | Makedirs string
  | Mkdir string
  | Copyfile string string
  | SassCompile string string string

definition page_template :: template where
  "page_template kwargs =
     (case dict_get kwargs ''content'' of
        None \<Rightarrow> Inr ''<body><!--posts--></body>''
      | Some c \<Rightarrow> Inr (''<body>'' @ c @ ''<!--posts--></body>''))"

definition example_templates :: "string \<Rightarrow> template option" where
  "example_templates name =
     (if name = ''default.html'' \<or> name = ''post.html'' then Some page_template else None)"

text \<open>
  The case tables of the examples are those of Unicode on ASCII: the cased characters are
  the letters, an upper-case letter is 32 below its lower-case letter, and every other
  ASCII character is its own image. The examples use ASCII names only; on the other
  characters the example tables are the identity.
\<close>

definition islower :: "char \<Rightarrow> bool" where
  "islower c = (97 \<le> (of_char c :: nat) \<and> (of_char c :: nat) \<le> 122)"

definition isupper :: "char \<Rightarrow> bool" where
  "isupper c = (65 \<le> (of_char c :: nat) \<and> (of_char c :: nat) \<le> 90)"

definition upper_char :: "char \<Rightarrow> char" where
  "upper_char c = (if islower c then char_of ((of_char c :: nat) - 32) else c)"

definition lower_char :: "char \<Rightarrow> char" where
  "lower_char c = (if isupper c then char_of ((of_char c :: nat) + 32) else c)"

definition ascii_tables :: case_tables where
  "ascii_tables =
     \<lparr>uc_title = (\<lambda>c. [upper_char c]),
      uc_lower = (\<lambda>c. [lower_char c]),
      uc_cased = (\<lambda>c. islower c \<or> isupper c)\<rparr>"

definition journal_services ::
  "(string \<times> string list) list \<Rightarrow> (string \<times> string) list \<Rightarrow> event list services" where
  "journal_services dirs files =
     \<lparr>ext_markdown = (\<lambda>body. body),
      ext_get_template = example_templates,
      ext_unicode = ascii_tables,
      ext_listdir = (\<lambda>d journal.
        (case map_of dirs d of None \<Rightarrow> Inl (OSError d) | Some names \<Rightarrow> Inr names,
         journal @ [Listdir d])),
      ext_read_file = (\<lambda>p journal.
        (case map_of files p of None \<Rightarrow> Inl (OSError p) | Some text \<Rightarrow> Inr text,
         journal @ [ReadFile p])),
      ext_write_file = (\<lambda>p text journal. (Inr (), journal @ [WriteFile p text])),
      ext_rmtree = (\<lambda>d journal. journal @ [Rmtree d]),
      ext_makedirs = (\<lambda>d journal. (Inr (), journal @ [Makedirs d])),
      ext_mkdir = (\<lambda>d journal. (Inr (), journal @ [Mkdir d])),
      ext_copyfile = (\<lambda>s d journal. (Inr (), journal @ [Copyfile s d])),
      ext_sass_compile = (\<lambda>i out style journal. (Inr (), journal @ [SassCompile i out style]))\<rparr>"

definition example_config :: config where
  "example_config =
     \<lparr>INPUT_DIR = ''content'', OUTPUT_DIR = ''dist'', STATIC_DIR = ''static'',
      DEBUG = False, CLIENT_SIDE_ROUTING = False, CSS_OUTPUT_STYLE = ''compact'',
      POST_LIST_TARGET = ''<!--posts-->''\<rparr>"

definition debug_config :: config where
  "debug_config = example_config\<lparr>DEBUG := True\<rparr>"

definition example_dirs :: "(string \<times> string list) list" where
  "example_dirs =
     [(''content'', [''index.md'', ''notes.txt'']),
      (''content/blog'', [''my-first-post.md'']),
      (''static/js'', [''dev.js'']),
      (''static/img'', [])]"

definition example_files :: "(string \<times> string) list" where
  "example_files =
     [(''content/index.md'', ''---\<newline>template: default.html\<newline>---\<newline>Welcome''),
      (''content/blog/my-first-post.md'', ''---\<newline>template: post.html\<newline>---\<newline>Hello'')]"

text \<open>
  A second site: the template of the second document of the main directory does not
  exist.
\<close>

definition broken_dirs :: "(string \<times> string list) list" where
  "broken_dirs =
     [(''content'', [''first.md'', ''second.md'', ''third.md'']),
      (''content/blog'', []),
      (''static/js'', []),
      (''static/img'', [])]"

definition broken_files :: "(string \<times> string) list" where
  "broken_files =
     [(''content/first.md'', ''---\<newline>template: default.html\<newline>---\<newline>One''),
      (''content/second.md'', ''---\<newline>template: missing.html\<newline>---\<newline>Two''),
      (''content/third.md'', ''---\<newline>template: default.html\<newline>---\<newline>Three'')]"

text \<open>
  A third site: the template of the first document of the blog directory does not exist.
\<close>

definition draft_dirs :: "(string \<times> string list) list" where
  "draft_dirs =
     [(''content'', [''index.md'']),
      (''content/blog'', [''draft.md'', ''my-first-post.md'']),
      (''static/js'', []),
      (''static/img'', [])]"

definition draft_files :: "(string \<times> string) list" where
  "draft_files =
     [(''content/index.md'', ''---\<newline>template: default.html\<newline>---\<newline>Welcome''),
      (''content/blog/draft.md'', ''---\<newline>template: draft.html\<newline>---\<newline>Soon''),
      (''content/blog/my-first-post.md'', ''---\<newline>template: post.html\<newline>---\<newline>Hello'')]"

section \<open>Properties of the string functions\<close>

lemma replace_str_Nil: "old \<noteq> [] \<Longrightarrow> replace_str old new [] = []"
  by (simp add: replace_str.simps)

lemma replace_str_match:
  "old \<noteq> [] \<Longrightarrow> prefix old (c # cs) \<Longrightarrow>
   replace_str old new (c # cs) = new @ replace_str old new (drop (length old) (c # cs))"
  by (subst replace_str.simps) simp

lemma replace_str_no_match:
  "old \<noteq> [] \<Longrightarrow> \<not> prefix old (c # cs) \<Longrightarrow>
   replace_str old new (c # cs) = c # replace_str old new cs"
  by (subst replace_str.simps) simp

lemma replace_str_absent:
  "old \<noteq> [] \<Longrightarrow> \<not> occurs_in old s \<Longrightarrow> replace_str old new s = s"
  by (induction s) (simp_all add: replace_str_Nil replace_str_no_match)

lemma replace_str_char:
  "replace_str [x] [y] s = map (\<lambda>c. if c = x then y else c) s"
proof (induction s)
  case Nil
  show ?case by (simp add: replace_str_Nil)
next
  case (Cons c s)
  show ?case
  proof (cases "c = x")
    case True
    then have "prefix [x] (c # s)" by simp
    then have "replace_str [x] [y] (c # s) = [y] @ replace_str [x] [y] (drop (length [x]) (c # s))"
      by (intro replace_str_match) simp_all
    with Cons True show ?thesis by simp
  next
    case False
    then have "\<not> prefix [x] (c # s)" by simp
    then have "replace_str [x] [y] (c # s) = c # replace_str [x] [y] s"
      by (intro replace_str_no_match) simp_all
    with Cons False show ?thesis by simp
  qed
qed

lemma md_no_straddle:
  assumes "\<not> prefix ''.md'' (c # a)"
  shows "\<not> prefix ''.md'' (c # a @ ''.md'' @ b)"
proof (cases a)
  case Nil
  then show ?thesis by simp
next
  case (Cons x a')
  show ?thesis
  proof (cases a')
    case Nil
    with Cons show ?thesis by simp
  next
    case (Cons y a'')
    with \<open>a = x # a'\<close> assms show ?thesis by simp
  qed
qed

lemma replace_md_append:
  "replace_str ''.md'' ''.html'' (a @ ''.md'' @ b) =
   replace_str ''.md'' ''.html'' a @ ''.html'' @ replace_str ''.md'' ''.html'' b"
proof (induction a rule: length_induct)
  case (1 a)
  note IH = 1 [rule_format]
  show ?case
  proof (cases a)
    case Nil
    have "replace_str ''.md'' ''.html'' (''.md'' @ b) =
            ''.html'' @ replace_str ''.md'' ''.html'' (drop (length ''.md'') (''.md'' @ b))"
      by (simp add: replace_str_match)
    then have "replace_str ''.md'' ''.html'' (''.md'' @ b) =
            ''.html'' @ replace_str ''.md'' ''.html'' b"
      by simp
    moreover have "replace_str ''.md'' ''.html'' [] = []"
      by (simp add: replace_str_Nil)
    ultimately show ?thesis using Nil by simp
  next
    case (Cons c a')
    show ?thesis
    proof (cases "prefix ''.md'' (c # a')")
      case True
      then obtain r where r: "c # a' = ''.md'' @ r" by (auto simp: prefix_def)
      then have ar: "a = ''.md'' @ r" using Cons by simp
      then have l: "length r < length a" by simp
      have m: "replace_str ''.md'' ''.html'' (''.md'' @ x) =
                 ''.html'' @ replace_str ''.md'' ''.html'' x" for x
      proof -
        have "replace_str ''.md'' ''.html'' (''.md'' @ x) =
            ''.html'' @ replace_str ''.md'' ''.html'' (drop (length ''.md'') (''.md'' @ x))"
          by (simp add: replace_str_match)
        then show ?thesis by simp
      qed
      have "replace_str ''.md'' ''.html'' (a @ ''.md'' @ b) =
              replace_str ''.md'' ''.html'' (''.md'' @ (r @ ''.md'' @ b))"
        by (simp only: ar append_assoc)
      also have "\<dots> = ''.html'' @ replace_str ''.md'' ''.html'' (r @ ''.md'' @ b)"
        by (rule m)
      also have "\<dots> = ''.html'' @ (replace_str ''.md'' ''.html'' r @ ''.html'' @
                   replace_str ''.md'' ''.html'' b)"
        by (simp only: IH [OF l])
      also have "\<dots> = (''.html'' @ replace_str ''.md'' ''.html'' r) @ ''.html'' @
                   replace_str ''.md'' ''.html'' b"
        by (simp only: append_assoc)
      also have "\<dots> = replace_str ''.md'' ''.html'' a @ ''.html'' @
                   replace_str ''.md'' ''.html'' b"
        by (simp only: ar m)
      finally show ?thesis .
    next
      case False
      have l: "length a' < length a" using Cons by simp
      from md_no_straddle [OF False]
      have "replace_str ''.md'' ''.html'' (c # a' @ ''.md'' @ b) =
              c # replace_str ''.md'' ''.html'' (a' @ ''.md'' @ b)"
        by (intro replace_str_no_match) simp_all
      also have "\<dots> = c # (replace_str ''.md'' ''.html'' a' @ ''.html'' @
                   replace_str ''.md'' ''.html'' b)"
        by (simp only: IH [OF l])
      also have "\<dots> = (c # replace_str ''.md'' ''.html'' a') @ ''.html'' @
                   replace_str ''.md'' ''.html'' b"
        by (simp only: append_Cons)
      also have "c # replace_str ''.md'' ''.html'' a' = replace_str ''.md'' ''.html'' (c # a')"
        using False by (intro replace_str_no_match [symmetric]) simp_all
      finally have "replace_str ''.md'' ''.html'' (c # a' @ ''.md'' @ b) =
          replace_str ''.md'' ''.html'' (c # a') @ ''.html'' @ replace_str ''.md'' ''.html'' b" .
      then show ?thesis by (simp only: Cons append_Cons)
    qed
  qed
qed

section \<open>Properties of the output router\<close>

lemma route_post:
  "dict_get metadata ''template'' = Some ''post.html'' \<Longrightarrow>
   determine_html_subdir cfg metadata = path_join (OUTPUT_DIR cfg) [''html'', ''blog'']"
  by (simp add: determine_html_subdir_def)

lemma route_other:
  "dict_get metadata ''template'' = Some t \<Longrightarrow> t \<noteq> ''post.html'' \<Longrightarrow> t \<noteq> ''default.html'' \<Longrightarrow>
   determine_html_subdir cfg metadata = path_join (OUTPUT_DIR cfg) [''html'']"
  by (simp add: determine_html_subdir_def)

lemma route_default:
  "dict_get metadata ''template'' = Some ''default.html'' \<Longrightarrow>
   determine_html_subdir cfg metadata = OUTPUT_DIR cfg"
  by (simp add: determine_html_subdir_def)

text \<open>
  C1. The router is a function of the metadata alone, and two of its three rules are as
  stated: \<open>post.html\<close> goes to \<open>html/blog\<close> (\<open>route_post\<close>), any other template but
  \<open>default.html\<close> goes to \<open>html\<close> (\<open>route_other\<close>), and \<open>default.html\<close> goes to the
  output root (\<open>route_default\<close>). The third rule fails where the \<open>template\<close> key is
  absent: the lookup gives \<^verbatim>\<open>None\<close>, which differs from \<open>default.html\<close>, so the empty
  metadata mapping is routed to \<open>html\<close> under the output root and never to the root
  itself.
\<close>

theorem route_no_template_goes_to_html:
  "determine_html_subdir cfg [] = path_join (OUTPUT_DIR cfg) [''html''] \<and>
   determine_html_subdir cfg [] \<noteq> OUTPUT_DIR cfg"
  by (simp add: determine_html_subdir_def dict_get_def startswith_def)

section \<open>Properties of the front-matter parser\<close>

lemma scan_lines_step:
  "\<not> is_delimiter line \<Longrightarrow>
   scan_lines count metadata (line # lines) = scan_lines count (add_entry line metadata) lines"
  by (simp add: is_delimiter_def add_entry_def has_colon_def split_once_def meta_key_def
      meta_value_def Let_def)

lemma scan_lines_block:
  "\<forall>l \<in> set block. \<not> is_delimiter l \<Longrightarrow>
   scan_lines count metadata (block @ rest) = scan_lines count (fold add_entry block metadata) rest"
proof (induction block arbitrary: metadata)
  case Nil
  show ?case by simp
next
  case (Cons l block)
  then show ?case by (simp add: scan_lines_step del: scan_lines.simps)
qed

lemma scan_lines_open:
  "is_delimiter d \<Longrightarrow> scan_lines 0 metadata (d # lines) = scan_lines 1 metadata lines"
  by (simp add: is_delimiter_def)

lemma scan_lines_close:
  "is_delimiter d \<Longrightarrow> scan_lines 1 metadata (d # lines) = metadata"
  by (simp add: is_delimiter_def)

lemma keys_add_entry:
  "fst ` set (add_entry l metadata) = (if has_colon l then {meta_key l} else {}) \<union> fst ` set metadata"
  by (simp add: add_entry_def dict_set_def dom_update)

lemma length_update:
  "length (AList.update k v al) = (if k \<in> fst ` set al then length al else Suc (length al))"
  by (induction al) (auto intro: rev_image_eqI)

lemma length_add_entry:
  "length (add_entry l metadata) =
     (if has_colon l \<and> meta_key l \<notin> fst ` set metadata then Suc (length metadata) else length metadata)"
  by (simp add: add_entry_def dict_set_def length_update)

lemma keys_fold_add_entry:
  "fst ` set (fold add_entry block metadata) = meta_key ` {l \<in> set block. has_colon l} \<union> fst ` set metadata"
  by (induction block arbitrary: metadata) (auto simp: keys_add_entry)

lemma length_fold_add_entry:
  "distinct (map meta_key (filter has_colon block)) \<Longrightarrow>
   \<forall>l \<in> set block. has_colon l \<longrightarrow> meta_key l \<notin> fst ` set metadata \<Longrightarrow>
   length (fold add_entry block metadata) = length metadata + length (filter has_colon block)"
proof (induction block arbitrary: metadata)
  case Nil
  show ?case by simp
next
  case (Cons l block)
  show ?case
  proof (cases "has_colon l")
    case True
    have d: "distinct (map meta_key (filter has_colon block))"
      and n: "meta_key l \<notin> meta_key ` {x \<in> set block. has_colon x}"
      using Cons.prems(1) True by auto
    have "\<forall>x \<in> set block. has_colon x \<longrightarrow> meta_key x \<notin> fst ` set (add_entry l metadata)"
    proof (intro ballI impI)
      fix x assume x: "x \<in> set block" "has_colon x"
      then have "meta_key x \<in> meta_key ` {x \<in> set block. has_colon x}" by blast
      with n have "meta_key x \<noteq> meta_key l" by metis
      moreover have "meta_key x \<notin> fst ` set metadata" using Cons.prems(2) x by simp
      ultimately show "meta_key x \<notin> fst ` set (add_entry l metadata)"
        by (simp add: keys_add_entry)
    qed
    from Cons.IH [OF d this] show ?thesis
      using True Cons.prems(2) by (simp add: length_add_entry)
  next
    case False
    then have e: "add_entry l metadata = metadata" by (simp add: add_entry_def)
    from False Cons.prems have d: "distinct (map meta_key (filter has_colon block))"
      and "\<forall>x \<in> set block. has_colon x \<longrightarrow> meta_key x \<notin> fst ` set metadata"
      by auto
    from Cons.IH [OF this] show ?thesis using False e by simp
  qed
qed

lemma fold_add_entry_no_colon:
  "\<forall>l \<in> set block. \<not> has_colon l \<Longrightarrow> fold add_entry block metadata = metadata"
  by (induction block) (auto simp: add_entry_def)

lemma scan_lines_document:
  assumes "is_delimiter d1" and "is_delimiter d2" and "\<forall>l \<in> set block. \<not> is_delimiter l"
  shows "scan_lines 0 [] (d1 # block @ d2 # rest) = fold add_entry block []"
proof -
  have "scan_lines 0 [] (d1 # block @ d2 # rest) = scan_lines 1 [] (block @ d2 # rest)"
    using assms(1) by (rule scan_lines_open)
  also have "\<dots> = scan_lines 1 (fold add_entry block []) (d2 # rest)"
    using assms(3) by (rule scan_lines_block)
  also have "\<dots> = fold add_entry block []"
    using assms(2) by (rule scan_lines_close)
  finally show ?thesis .
qed

lemma convert_to_html_lines:
  "convert_to_html markdown text =
     (scan_lines 0 [] (split_on CHR ''\<newline>'' text),
      markdown (join ''\<newline>''
        (drop (length (scan_lines 0 [] (split_on CHR ''\<newline>'' text)) + 2)
           (split_on CHR ''\<newline>'' text))))"
  by (simp add: convert_to_html_def Let_def del: scan_lines.simps)

lemma length_filter_split:
  "length (filter has_colon block) + length (filter is_skipped block) = length block"
  by (induction block) (auto simp: is_skipped_def)

text \<open>
  C3, as amended. A document in which no line begins with the marker and no line contains
  a colon is parsed to the empty metadata mapping, and its body is the input without its
  first two lines. (A colon in a line of such a document does give a metadata entry, and
  each entry moves the start of the body one line further; see the counterexample.)
\<close>

theorem parse_no_delimiter_no_colon:
  assumes "\<forall>l \<in> set (split_on CHR ''\<newline>'' text). \<not> is_delimiter l \<and> \<not> has_colon l"
  shows "convert_to_html markdown text =
           ([], markdown (join ''\<newline>'' (drop 2 (split_on CHR ''\<newline>'' text))))"
proof -
  let ?lines = "split_on CHR ''\<newline>'' text"
  have "scan_lines 0 [] (?lines @ []) = scan_lines 0 (fold add_entry ?lines []) []"
    using assms by (intro scan_lines_block) simp
  moreover have "fold add_entry ?lines [] = []"
    using assms by (intro fold_add_entry_no_colon) simp
  ultimately have "scan_lines 0 [] ?lines = []" by simp
  then show ?thesis by (simp add: convert_to_html_def numeral_2_eq_2)
qed

theorem parse_no_delimiter_no_colon_witness:
  "convert_to_html id ''Welcome\<newline>to my site\<newline>first paragraph\<newline>second paragraph'' =
     ([], ''first paragraph\<newline>second paragraph'')"
proof -
  have h: "\<forall>l \<in> set (split_on CHR ''\<newline>'' ''Welcome\<newline>to my site\<newline>first paragraph\<newline>second paragraph'').
             \<not> is_delimiter l \<and> \<not> has_colon l"
    by (simp add: is_delimiter_def has_colon_def startswith_def)
  from parse_no_delimiter_no_colon [OF h, of id] show ?thesis by simp
qed

text \<open>
  C3 as stated fails: the four lines below hold no delimiter line, yet the parser stores
  the entry of the first line, and the body starts at the fourth line instead of the third.
\<close>

theorem parse_no_delimiter_counterexample:
  "filter is_delimiter (split_on CHR ''\<newline>'' ''title: Hello\<newline>line2\<newline>line3\<newline>line4'') = [] \<and>
   fst (convert_to_html id ''title: Hello\<newline>line2\<newline>line3\<newline>line4'') = [(''title'', ''Hello'')] \<and>
   snd (convert_to_html id ''title: Hello\<newline>line2\<newline>line3\<newline>line4'') = ''line4''"
  by (simp add: convert_to_html_def is_delimiter_def startswith_def split_once_def dict_set_def
      strip_def isspace_def)

text \<open>
  C5, as amended. The document starts with a delimiter line \<open>d1\<close>; \<open>block\<close> are the lines
  up to the next delimiter line \<open>d2\<close>, and \<open>rest\<close> the lines after it. When every line of
  the block contains a colon and the keys of the lines, after trimming, are pairwise
  distinct, the offset \<^verbatim>\<open>len(metadata) + 2\<close> is the index of the line after the closing
  delimiter, and the text handed to the Markdown converter is exactly \<open>rest\<close>.
\<close>

theorem offset_exact_for_distinct_keys:
  assumes "split_on CHR ''\<newline>'' text = d1 # block @ d2 # rest"
    and "is_delimiter d1" and "is_delimiter d2"
    and "\<forall>l \<in> set block. \<not> is_delimiter l \<and> has_colon l"
    and "distinct (map meta_key block)"
  shows "length (fst (convert_to_html markdown text)) + 2 = length (d1 # block @ [d2]) \<and>
         snd (convert_to_html markdown text) = markdown (join ''\<newline>'' rest)"
proof -
  have all: "filter has_colon block = block"
    using assms(4) by (simp add: filter_id_conv)
  have m: "scan_lines 0 [] (split_on CHR ''\<newline>'' text) = fold add_entry block []"
    using assms(1-4) by (simp add: scan_lines_document del: scan_lines.simps)
  have "length (fold add_entry block []) = length [] + length (filter has_colon block)"
    using assms(5) all length_fold_add_entry [of block "[]"] by simp
  then have n: "length (fold add_entry block []) = length block"
    using all by simp
  show ?thesis
    unfolding convert_to_html_lines m unfolding assms(1) by (simp add: n)
qed

theorem offset_exact_for_distinct_keys_witness:
  "length (fst (convert_to_html id ''---\<newline>title: Hello\<newline>template: post.html\<newline>---\<newline>body'')) + 2 = 4 \<and>
   snd (convert_to_html id ''---\<newline>title: Hello\<newline>template: post.html\<newline>---\<newline>body'') = ''body''"
proof -
  have s: "split_on CHR ''\<newline>'' ''---\<newline>title: Hello\<newline>template: post.html\<newline>---\<newline>body'' =
             ''---'' # [''title: Hello'', ''template: post.html''] @ ''---'' # [''body'']"
    by simp
  have d: "is_delimiter ''---''" by (simp add: is_delimiter_def startswith_def)
  have b: "\<forall>l \<in> set [''title: Hello'', ''template: post.html'']. \<not> is_delimiter l \<and> has_colon l"
    by (simp add: is_delimiter_def startswith_def has_colon_def)
  have k: "distinct (map meta_key [''title: Hello'', ''template: post.html''])"
    by (simp add: meta_key_def strip_def isspace_def)
  from offset_exact_for_distinct_keys [OF s d d b k, of id] show ?thesis by simp
qed

text \<open>
  C5 as stated fails when two lines of the block have the same key: the block below starts
  at the first line and each of its lines has a colon; the closing delimiter is line 3, the
  line after it is line 4, but the offset is 3 and the body starts with the delimiter.
\<close>

theorem offset_exact_counterexample:
  "split_on CHR ''\<newline>'' ''---\<newline>tag: a\<newline>tag: b\<newline>---\<newline>body'' =
     [''---'', ''tag: a'', ''tag: b'', ''---'', ''body''] \<and>
   filter has_colon [''tag: a'', ''tag: b''] = [''tag: a'', ''tag: b''] \<and>
   length (fst (convert_to_html id ''---\<newline>tag: a\<newline>tag: b\<newline>---\<newline>body'')) + 2 = 3 \<and>
   snd (convert_to_html id ''---\<newline>tag: a\<newline>tag: b\<newline>---\<newline>body'') = ''---\<newline>body''"
  by (simp add: convert_to_html_def has_colon_def startswith_def split_once_def dict_set_def
      strip_def isspace_def)

text \<open>
  C6, as amended. With the document as in C5, a block that starts at the first line,
  whose lines with a colon have pairwise distinct keys after trimming, and that has at
  least one line without a colon: the offset \<^verbatim>\<open>len(metadata) + 2\<close> plus the number of
  skipped lines is the index of the line after the closing delimiter, so the offset is
  smaller and the body starts that many lines too early.
\<close>

theorem offset_short_by_skipped_lines:
  assumes "split_on CHR ''\<newline>'' text = d1 # block @ d2 # rest"
    and "is_delimiter d1" and "is_delimiter d2"
    and "\<forall>l \<in> set block. \<not> is_delimiter l"
    and "distinct (map meta_key (filter has_colon block))"
    and "\<exists>l \<in> set block. is_skipped l"
  shows "length (fst (convert_to_html markdown text)) + 2 + length (filter is_skipped block) =
           length (d1 # block @ [d2]) \<and>
         length (fst (convert_to_html markdown text)) + 2 < length (d1 # block @ [d2]) \<and>
         snd (convert_to_html markdown text) =
           markdown (join ''\<newline>''
             (drop (length (d1 # block @ [d2]) - length (filter is_skipped block))
                (split_on CHR ''\<newline>'' text)))"
proof -
  have m: "scan_lines 0 [] (split_on CHR ''\<newline>'' text) = fold add_entry block []"
    using assms(1-4) by (simp add: scan_lines_document del: scan_lines.simps)
  have "length (fold add_entry block []) = length [] + length (filter has_colon block)"
    using assms(5) length_fold_add_entry [of block "[]"] by simp
  then have n: "length (fold add_entry block []) + length (filter is_skipped block) = length block"
    using length_filter_split [of block] by simp
  have pos: "0 < length (filter is_skipped block)"
    using assms(6) by (simp add: length_greater_0_conv filter_empty_conv)
  have f: "fst (convert_to_html markdown text) = fold add_entry block []"
    unfolding convert_to_html_lines m by simp
  have o: "length (fold add_entry block []) + 2 =
             length (d1 # block @ [d2]) - length (filter is_skipped block)"
    using n by simp
  have "snd (convert_to_html markdown text) =
          markdown (join ''\<newline>'' (drop (length (fold add_entry block []) + 2)
            (split_on CHR ''\<newline>'' text)))"
    unfolding convert_to_html_lines m by simp
  then have b: "snd (convert_to_html markdown text) =
          markdown (join ''\<newline>''
            (drop (length (d1 # block @ [d2]) - length (filter is_skipped block))
               (split_on CHR ''\<newline>'' text)))"
    unfolding o .
  have "length (fst (convert_to_html markdown text)) + 2 + length (filter is_skipped block) =
          length (d1 # block @ [d2])"
    unfolding f using n by simp
  moreover from this pos have "length (fst (convert_to_html markdown text)) + 2 <
          length (d1 # block @ [d2])"
    by linarith
  ultimately show ?thesis using b by blast
qed

theorem offset_short_by_skipped_lines_witness:
  "length (fst (convert_to_html id ''---\<newline>title: Hello\<newline>a note\<newline>---\<newline>body'')) + 2 + 1 = 4 \<and>
   snd (convert_to_html id ''---\<newline>title: Hello\<newline>a note\<newline>---\<newline>body'') = ''---\<newline>body''"
proof -
  have s: "split_on CHR ''\<newline>'' ''---\<newline>title: Hello\<newline>a note\<newline>---\<newline>body'' =
             ''---'' # [''title: Hello'', ''a note''] @ ''---'' # [''body'']"
    by simp
  have d: "is_delimiter ''---''" by (simp add: is_delimiter_def startswith_def)
  have b: "\<forall>l \<in> set [''title: Hello'', ''a note'']. \<not> is_delimiter l"
    by (simp add: is_delimiter_def startswith_def)
  have k: "distinct (map meta_key (filter has_colon [''title: Hello'', ''a note'']))"
    by (simp add: has_colon_def)
  have e: "\<exists>l \<in> set [''title: Hello'', ''a note'']. is_skipped l"
    by (simp add: is_skipped_def has_colon_def)
  have c: "filter is_skipped [''title: Hello'', ''a note''] = [''a note'']"
    by (simp add: is_skipped_def has_colon_def)
  note r = offset_short_by_skipped_lines [OF s d d b k e, of id, unfolded c]
  from r show ?thesis by simp
qed

text \<open>
  C6 as stated fails when two lines of the block have the same key: the block below has
  one line without a colon, the line after the closing delimiter is line 5, and the offset
  is 3, two lines short and not one.
\<close>

theorem offset_short_counterexample:
  "split_on CHR ''\<newline>'' ''---\<newline>tag: a\<newline>tag: b\<newline>a note\<newline>---\<newline>body'' =
     [''---'', ''tag: a'', ''tag: b'', ''a note'', ''---'', ''body''] \<and>
   filter is_skipped [''tag: a'', ''tag: b'', ''a note''] = [''a note''] \<and>
   length (fst (convert_to_html id ''---\<newline>tag: a\<newline>tag: b\<newline>a note\<newline>---\<newline>body'')) + 2 = 3 \<and>
   snd (convert_to_html id ''---\<newline>tag: a\<newline>tag: b\<newline>a note\<newline>---\<newline>body'') =
     ''a note\<newline>---\<newline>body''"
  by (simp add: convert_to_html_def is_skipped_def has_colon_def startswith_def split_once_def
      dict_set_def strip_def isspace_def)

section \<open>Properties of the content injector\<close>

lemma occurs_in_length: "occurs_in a s \<Longrightarrow> length a \<le> length s"
  by (induction s) (auto dest: prefix_length_le)

lemma splice_absent: "\<not> occurs_in a s \<Longrightarrow> splice a e p s = s"
  by (induction s) auto

lemma splice_prepend_first:
  assumes "a \<noteq> []" and "occurs_in a s"
  shows "\<exists>pre post. s = pre @ a @ post \<and> \<not> occurs_in a (pre @ butlast a) \<and>
           splice a e True s = pre @ e @ a @ post"
  using assms(2)
proof (induction s)
  case Nil
  with assms(1) show ?case by simp
next
  case (Cons c cs)
  show ?case
  proof (cases "prefix a (c # cs)")
    case True
    then obtain post where p: "c # cs = a @ post" by (auto simp: prefix_def)
    have "length (butlast a) < length a" using assms(1) by simp
    then have "\<not> occurs_in a (butlast a)"
      using occurs_in_length [of a "butlast a"] by linarith
    moreover have "splice a e True (c # cs) = e @ c # cs"
      using True by simp
    then have "splice a e True (c # cs) = e @ a @ post"
      by (simp only: p)
    ultimately have "c # cs = [] @ a @ post \<and> \<not> occurs_in a ([] @ butlast a) \<and>
        splice a e True (c # cs) = [] @ e @ a @ post"
      using p by simp
    then show ?thesis by blast
  next
    case False
    with Cons.prems have "occurs_in a cs" by simp
    from Cons.IH [OF this] obtain pre post where
      s: "cs = pre @ a @ post" and n: "\<not> occurs_in a (pre @ butlast a)"
      and r: "splice a e True cs = pre @ e @ a @ post" by blast
    have "c # cs = ((c # pre) @ butlast a) @ [last a] @ post"
      using s assms(1) by simp
    then have "prefix a ((c # pre) @ butlast a) \<Longrightarrow> prefix a (c # cs)"
      by (metis prefix_append)
    with False have np: "\<not> prefix a ((c # pre) @ butlast a)" by blast
    have "c # cs = (c # pre) @ a @ post" using s by simp
    moreover have "\<not> occurs_in a ((c # pre) @ butlast a)" using n np by simp
    moreover have "splice a e True (c # cs) = (c # pre) @ e @ a @ post"
      using False r by simp
    ultimately show ?thesis by blast
  qed
qed

lemma dev_script_not_empty: "dev_script \<noteq> []"
  by (simp add: dev_script_def)

lemma add_utils_absent:
  "\<not> occurs_in ''</body>'' s \<Longrightarrow> add_utils s = s"
  by (simp add: add_utils_def add_html_def splice_absent)

lemma add_utils_present:
  assumes "occurs_in ''</body>'' s"
  shows "\<exists>pre post. s = pre @ ''</body>'' @ post \<and> \<not> occurs_in ''</body>'' (pre @ ''</body'') \<and>
           add_utils s = pre @ dev_script @ ''</body>'' @ post"
proof -
  have "''</body>'' \<noteq> []" by simp
  from splice_prepend_first [OF this assms, of dev_script]
  show ?thesis by (simp add: add_utils_def add_html_def)
qed

text \<open>
  C7, as amended. \<open>add_posts cfg output_text post_list\<close> is the text that reaches the
  development step. When it contains \<open></body>\<close>, the script tag is inserted immediately
  before the first \<open></body>\<close> if the debug flag is true and the client-side-routing flag
  is false, and the step changes the text if and only if the flags have these values. For
  the other three values of the flags the step leaves the text unchanged, and so it does,
  whatever the flags, for a text without \<open></body>\<close>.
\<close>

theorem dev_script_injected_iff_flags:
  "(occurs_in ''</body>'' (add_posts cfg output_text post_list) \<longrightarrow>
      (DEBUG cfg \<and> \<not> CLIENT_SIDE_ROUTING cfg \<longrightarrow>
         (\<exists>pre post. add_posts cfg output_text post_list = pre @ ''</body>'' @ post \<and>
            \<not> occurs_in ''</body>'' (pre @ ''</body'') \<and>
            inject_html cfg output_text post_list = pre @ dev_script @ ''</body>'' @ post)) \<and>
      ((inject_html cfg output_text post_list \<noteq> add_posts cfg output_text post_list) =
         (DEBUG cfg \<and> \<not> CLIENT_SIDE_ROUTING cfg))) \<and>
   (\<not> (DEBUG cfg \<and> \<not> CLIENT_SIDE_ROUTING cfg) \<longrightarrow>
      inject_html cfg output_text post_list = add_posts cfg output_text post_list) \<and>
   (\<not> occurs_in ''</body>'' (add_posts cfg output_text post_list) \<longrightarrow>
      inject_html cfg output_text post_list = add_posts cfg output_text post_list)"
proof (intro conjI impI)
  assume o: "occurs_in ''</body>'' (add_posts cfg output_text post_list)"
    and f: "DEBUG cfg \<and> \<not> CLIENT_SIDE_ROUTING cfg"
  from add_utils_present [OF o] f
  show "\<exists>pre post. add_posts cfg output_text post_list = pre @ ''</body>'' @ post \<and>
            \<not> occurs_in ''</body>'' (pre @ ''</body'') \<and>
            inject_html cfg output_text post_list = pre @ dev_script @ ''</body>'' @ post"
    by (simp add: inject_html_def Let_def)
next
  assume o: "occurs_in ''</body>'' (add_posts cfg output_text post_list)"
  from add_utils_present [OF o] obtain pre post where
    s: "add_posts cfg output_text post_list = pre @ ''</body>'' @ post"
    and r: "add_utils (add_posts cfg output_text post_list) = pre @ dev_script @ ''</body>'' @ post"
    by blast
  have "pre @ dev_script @ ''</body>'' @ post \<noteq> pre @ ''</body>'' @ post"
    using dev_script_not_empty by simp
  then have "add_utils (add_posts cfg output_text post_list) \<noteq> add_posts cfg output_text post_list"
    using r s by metis
  then show "(inject_html cfg output_text post_list \<noteq> add_posts cfg output_text post_list) =
         (DEBUG cfg \<and> \<not> CLIENT_SIDE_ROUTING cfg)"
    by (auto simp: inject_html_def Let_def)
next
  assume "\<not> (DEBUG cfg \<and> \<not> CLIENT_SIDE_ROUTING cfg)"
  then show "inject_html cfg output_text post_list = add_posts cfg output_text post_list"
    by (auto simp: inject_html_def Let_def)
next
  assume "\<not> occurs_in ''</body>'' (add_posts cfg output_text post_list)"
  then show "inject_html cfg output_text post_list = add_posts cfg output_text post_list"
    by (simp add: inject_html_def Let_def add_utils_absent)
qed

theorem dev_script_injected_iff_flags_witness:
  "occurs_in ''</body>'' (add_posts debug_config ''<body>Hi</body>'' ''links'') \<and>
   DEBUG debug_config \<and> \<not> CLIENT_SIDE_ROUTING debug_config \<and>
   inject_html debug_config ''<body>Hi</body>'' ''links'' = ''<body>Hi'' @ dev_script @ ''</body>'' \<and>
   \<not> DEBUG example_config \<and>
   inject_html example_config ''<body>Hi</body>'' ''links'' = ''<body>Hi</body>'' \<and>
   \<not> occurs_in ''</body>'' (add_posts debug_config ''<p>Hi</p>'' ''links'') \<and>
   inject_html debug_config ''<p>Hi</p>'' ''links'' = ''<p>Hi</p>''"
proof -
  have a: "add_posts cfg ''<body>Hi</body>'' ''links'' = ''<body>Hi</body>''"
    if "POST_LIST_TARGET cfg = ''<!--posts-->''" for cfg
    using that by (simp add: add_posts_def add_html_def)
  have b: "add_posts debug_config ''<p>Hi</p>'' ''links'' = ''<p>Hi</p>''"
    by (simp add: add_posts_def add_html_def debug_config_def example_config_def)
  have t: "POST_LIST_TARGET debug_config = ''<!--posts-->''" "POST_LIST_TARGET example_config = ''<!--posts-->''"
    by (simp_all add: debug_config_def example_config_def)
  have f: "DEBUG debug_config \<and> \<not> CLIENT_SIDE_ROUTING debug_config" "\<not> DEBUG example_config"
    by (simp_all add: debug_config_def example_config_def)
  have o: "occurs_in ''</body>'' ''<body>Hi</body>''" "\<not> occurs_in ''</body>'' ''<p>Hi</p>''"
    by simp_all
  note d = dev_script_injected_iff_flags [of debug_config "''<body>Hi</body>''" "''links''"]
  note e = dev_script_injected_iff_flags [of example_config "''<body>Hi</body>''" "''links''"]
  note n = dev_script_injected_iff_flags [of debug_config "''<p>Hi</p>''" "''links''"]
  have 1: "inject_html debug_config ''<body>Hi</body>'' ''links'' = ''<body>Hi'' @ dev_script @ ''</body>''"
    by (simp add: inject_html_def a [OF t(1)] f add_utils_def add_html_def)
  have 2: "inject_html example_config ''<body>Hi</body>'' ''links'' = ''<body>Hi</body>''"
    using e f(2) by (simp add: a [OF t(2)])
  have 3: "inject_html debug_config ''<p>Hi</p>'' ''links'' = ''<p>Hi</p>''"
    using n o(2) by (simp add: b)
  show ?thesis using 1 2 3 f o d by (simp add: a [OF t(1)] b)
qed

text \<open>
  C7 as stated fails for a text without the anchor: the debug flag is true and the
  client-side-routing flag is false, but nothing is inserted.
\<close>

theorem dev_script_not_injected_counterexample:
  "DEBUG debug_config = True \<and> CLIENT_SIDE_ROUTING debug_config = False \<and>
   inject_html debug_config ''<p>Hi</p>'' ''links'' = ''<p>Hi</p>''"
  by (simp add: debug_config_def example_config_def inject_html_def add_posts_def add_utils_def
      add_html_def)

section \<open>Properties of the content renderer\<close>

lemma render_found:
  "get_template (template_name metadata) = Some t \<Longrightarrow> ''content'' \<notin> fst ` set metadata \<Longrightarrow>
   ''self'' \<notin> fst ` set metadata \<Longrightarrow>
   render get_template metadata html = t ((''content'', html) # metadata)"
  by (simp add: render_def)

lemma render_duplicate_keyword:
  "get_template (template_name metadata) = Some t \<Longrightarrow> ''content'' \<in> fst ` set metadata \<Longrightarrow>
   render get_template metadata html = Inl (TypeError ''content'')"
  by (simp add: render_def)

lemma render_self_keyword:
  "get_template (template_name metadata) = Some t \<Longrightarrow> ''content'' \<notin> fst ` set metadata \<Longrightarrow>
   ''self'' \<in> fst ` set metadata \<Longrightarrow>
   render get_template metadata html = Inl (TypeError ''self'')"
  by (simp add: render_def)

lemma render_not_found:
  "get_template (template_name metadata) = None \<Longrightarrow>
   render get_template metadata html = Inl (TemplateNotFound (template_name metadata))"
  by (simp add: render_def)

text \<open>
  C4, as amended. Let the template named by the metadata resolve to \<open>t\<close>. For a metadata
  mapping with neither the key \<open>content\<close> nor the key \<open>self\<close>, rendering calls \<open>t\<close> with
  the body bound to \<open>content\<close> and every metadata key bound, unchanged, as a further
  variable. For a metadata mapping with the key \<open>content\<close> the call fails with a
  \<^verbatim>\<open>TypeError\<close> and the engine is not run: no binding wins. The same holds for a
  metadata mapping with the key \<open>self\<close>.
\<close>

theorem render_passes_content_and_metadata:
  assumes "get_template (template_name metadata) = Some t"
  shows "(''content'' \<notin> fst ` set metadata \<and> ''self'' \<notin> fst ` set metadata \<longrightarrow>
            render get_template metadata html = t ((''content'', html) # metadata) \<and>
            dict_get ((''content'', html) # metadata) ''content'' = Some html \<and>
            (\<forall>k. k \<noteq> ''content'' \<longrightarrow>
               dict_get ((''content'', html) # metadata) k = dict_get metadata k)) \<and>
         (''content'' \<in> fst ` set metadata \<longrightarrow>
            render get_template metadata html = Inl (TypeError ''content'')) \<and>
         (''content'' \<notin> fst ` set metadata \<and> ''self'' \<in> fst ` set metadata \<longrightarrow>
            render get_template metadata html = Inl (TypeError ''self''))"
  using assms
  by (simp add: render_found render_duplicate_keyword render_self_keyword dict_get_def)

theorem render_passes_content_and_metadata_witness:
  "render example_templates [(''title'', ''Home'')] ''<p>Hi</p>'' =
     page_template [(''content'', ''<p>Hi</p>''), (''title'', ''Home'')] \<and>
   render example_templates [(''title'', ''Home'')] ''<p>Hi</p>'' =
     Inr ''<body><p>Hi</p><!--posts--></body>'' \<and>
   render example_templates [(''title'', ''Home''), (''content'', ''mine'')] ''<p>Hi</p>'' =
     Inl (TypeError ''content'') \<and>
   render example_templates [(''title'', ''Home''), (''self'', ''me'')] ''<p>Hi</p>'' =
     Inl (TypeError ''self'')"
proof -
  have a: "example_templates (template_name [(''title'', ''Home'')]) = Some page_template"
    by (simp add: example_templates_def template_name_def dict_get_def)
  have b: "example_templates (template_name [(''title'', ''Home''), (''content'', ''mine'')]) =
             Some page_template"
    by (simp add: example_templates_def template_name_def dict_get_def)
  have s: "example_templates (template_name [(''title'', ''Home''), (''self'', ''me'')]) =
             Some page_template"
    by (simp add: example_templates_def template_name_def dict_get_def)
  have c: "''content'' \<notin> fst ` set [(''title'', ''Home'')]"
    "''self'' \<notin> fst ` set [(''title'', ''Home'')]"
    "''content'' \<in> fst ` set [(''title'', ''Home''), (''content'', ''mine'')]"
    "''content'' \<notin> fst ` set [(''title'', ''Home''), (''self'', ''me'')]"
    "''self'' \<in> fst ` set [(''title'', ''Home''), (''self'', ''me'')]"
    by simp_all
  from render_passes_content_and_metadata
         [of example_templates "[(''title'', ''Home'')]" page_template "''<p>Hi</p>''"] a c(1,2)
  have 1: "render example_templates [(''title'', ''Home'')] ''<p>Hi</p>'' =
     page_template [(''content'', ''<p>Hi</p>''), (''title'', ''Home'')]" by simp
  from render_passes_content_and_metadata
         [of example_templates "[(''title'', ''Home''), (''content'', ''mine'')]" page_template
            "''<p>Hi</p>''"] b c(3)
  have 2: "render example_templates [(''title'', ''Home''), (''content'', ''mine'')] ''<p>Hi</p>'' =
     Inl (TypeError ''content'')" by simp
  from render_passes_content_and_metadata
         [of example_templates "[(''title'', ''Home''), (''self'', ''me'')]" page_template
            "''<p>Hi</p>''"] s c(4,5)
  have 4: "render example_templates [(''title'', ''Home''), (''self'', ''me'')] ''<p>Hi</p>'' =
     Inl (TypeError ''self'')" by simp
  have 3: "page_template [(''content'', ''<p>Hi</p>''), (''title'', ''Home'')] =
     Inr ''<body><p>Hi</p><!--posts--></body>''"
    by (simp add: page_template_def dict_get_def)
  show ?thesis using 1 2 3 4 by simp
qed

text \<open>
  C4 as stated fails: with the key \<open>content\<close> in the metadata and a template that
  resolves, rendering does not succeed.
\<close>

theorem render_content_key_counterexample:
  "example_templates (template_name [(''content'', ''mine'')]) = Some page_template \<and>
   render example_templates [(''content'', ''mine'')] ''<p>Hi</p>'' = Inl (TypeError ''content'')"
  by (simp add: render_def example_templates_def template_name_def dict_get_def)

section \<open>Properties of the post index collector\<close>

lemma split_on_not_empty: "split_on sep s \<noteq> []"
  by (induction s) (auto split: list.splits)

lemma hd_split_on: "hd (split_on sep s) = takeWhile (\<lambda>c. c \<noteq> sep) s"
proof (induction s)
  case Nil
  show ?case by simp
next
  case (Cons c s)
  then show ?case
    using split_on_not_empty [of sep s] by (cases "split_on sep s") auto
qed


lemma upt_0_Suc: "[0..<Suc n] = 0 # map Suc [0..<n]"
  by (simp add: upt_conv_Cons map_Suc_upt del: upt_Suc)

lemma title_from_index:
  "title_from tables p s =
     concat (map (\<lambda>i. if (if i = 0 then p else uc_cased tables (s ! (i - 1)))
                        then uc_lower tables (s ! i) else uc_title tables (s ! i))
               [0..<length s])"
proof (induction s arbitrary: p)
  case Nil
  show ?case by simp
next
  case (Cons c cs)
  have "map (\<lambda>i. if (if i = 0 then p else uc_cased tables ((c # cs) ! (i - 1)))
                    then uc_lower tables ((c # cs) ! i) else uc_title tables ((c # cs) ! i))
          (map Suc [0..<length cs]) =
        map (\<lambda>i. if (if i = 0 then uc_cased tables c else uc_cased tables (cs ! (i - 1)))
                    then uc_lower tables (cs ! i) else uc_title tables (cs ! i))
          [0..<length cs]"
    by (simp add: nth_Cons')
  then show ?case
    by (simp only: length_Cons upt_0_Suc list.map concat.simps Cons.IH [symmetric])
      (simp add: Cons.IH)
qed

lemma title_is_title_case: "title tables s = title_case tables s"
proof -
  have "map (\<lambda>i. if (if i = 0 then False else uc_cased tables (s ! (i - 1)))
                    then uc_lower tables (s ! i) else uc_title tables (s ! i))
          [0..<length s] =
        map (\<lambda>i. if 0 < i \<and> uc_cased tables (s ! (i - 1))
                    then uc_lower tables (s ! i) else uc_title tables (s ! i))
          [0..<length s]"
    by (rule map_cong) auto
  then show ?thesis
    by (simp only: title_def title_case_def title_from_index)
qed

lemma replace_hyphens: "replace_str ''-'' '' '' s = hyphens_to_spaces s"
  by (simp add: replace_str_char hyphens_to_spaces_def hyphen_to_space_def)

lemma collect_loop_step:
  "collect_loop tables contents (filename # filenames) =
   collect_loop tables (contents @ titled_link tables filename) filenames"
  by (simp add: titled_link_def logical_name_def hd_split_on replace_hyphens
      title_is_title_case Let_def)

lemma collect_loop_links:
  "collect_loop tables contents filenames =
   contents @ concat (map (titled_link tables) filenames)"
  by (induction filenames arbitrary: contents)
    (simp_all add: collect_loop_step del: collect_loop.simps(2))












section \<open>Properties of the build\<close>

lemma and_then_raise: "m s = (Inl e, s') \<Longrightarrow> and_then m k s = (Inl e, s')"
  by (simp add: and_then_def)

lemma and_then_value: "m s = (Inr x, s') \<Longrightarrow> and_then m k s = k x s'"
  by (simp add: and_then_def)

lemma in_stage_result:
  "m fs = (r, fs') \<Longrightarrow> in_stage st m (entered, fs) = (r, entered @ [st], fs')"
  by (simp add: in_stage_def)

lemma stage_last:
  "\<exists>p. stages_entered (in_stage st m (entered, fs)) = entered @ p \<and> prefix p [st] \<and> p \<noteq> [] \<and>
       (\<forall>v. fst (in_stage st m (entered, fs)) = Inr v \<longrightarrow> p = [st])"
proof -
  obtain r fs' where "m fs = (r, fs')" by (cases "m fs")
  then have "stages_entered (in_stage st m (entered, fs)) = entered @ [st]"
    by (simp add: in_stage_result stages_entered_def)
  then show ?thesis by auto
qed

lemma stage_seq:
  assumes "\<And>x entered fs.
      \<exists>p. stages_entered (k x (entered, fs)) = entered @ p \<and> prefix p ord \<and> p \<noteq> [] \<and>
          (\<forall>v. fst (k x (entered, fs)) = Inr v \<longrightarrow> p = ord)"
  shows "\<exists>p. stages_entered (and_then (in_stage st m) k (entered, fs)) = entered @ p \<and>
           prefix p (st # ord) \<and> p \<noteq> [] \<and>
           (\<forall>v. fst (and_then (in_stage st m) k (entered, fs)) = Inr v \<longrightarrow> p = st # ord)"
proof -
  obtain r fs' where m: "m fs = (r, fs')" by (cases "m fs")
  show ?thesis
  proof (cases r)
    case (Inl e)
    with m have "and_then (in_stage st m) k (entered, fs) = (Inl e, entered @ [st], fs')"
      by (simp add: and_then_raise in_stage_result)
    then have "stages_entered (and_then (in_stage st m) k (entered, fs)) = entered @ [st] \<and>
        prefix [st] (st # ord) \<and> [st] \<noteq> [] \<and>
        (\<forall>v. fst (and_then (in_stage st m) k (entered, fs)) = Inr v \<longrightarrow> [st] = st # ord)"
      by (simp add: stages_entered_def)
    then show ?thesis by blast
  next
    case (Inr x)
    with m have e: "and_then (in_stage st m) k (entered, fs) = k x (entered @ [st], fs')"
      by (simp add: and_then_value in_stage_result)
    from assms [of x "entered @ [st]" fs'] obtain p where
      p: "stages_entered (k x (entered @ [st], fs')) = (entered @ [st]) @ p" "prefix p ord"
        "\<forall>v. fst (k x (entered @ [st], fs')) = Inr v \<longrightarrow> p = ord"
      by blast
    have "stages_entered (and_then (in_stage st m) k (entered, fs)) = entered @ (st # p) \<and>
        prefix (st # p) (st # ord) \<and> st # p \<noteq> [] \<and>
        (\<forall>v. fst (and_then (in_stage st m) k (entered, fs)) = Inr v \<longrightarrow> st # p = st # ord)"
      using p by (simp add: e)
    then show ?thesis by blast
  qed
qed

lemma build_stages:
  "\<exists>p. stages_entered (build_site ext cfg fs) = [] @ p \<and> prefix p code_order \<and> p \<noteq> [] \<and>
       (\<forall>v. fst (build_site ext cfg fs) = Inr v \<longrightarrow> p = code_order)"
  unfolding build_site_def code_order_def
  by (intro stage_seq stage_last)

lemma build_stage_order_general:
  "prefix (stages_entered (build_site ext cfg fs)) code_order \<and>
   stages_entered (build_site ext cfg fs) \<noteq> [] \<and>
   (fst (build_site ext cfg fs) = Inr () \<longrightarrow> stages_entered (build_site ext cfg fs) = code_order)"
  using build_stages [of ext cfg fs] by auto

lemma convert_files_append:
  "convert_files ext cfg d posts pre fs = (Inr (), fs') \<Longrightarrow>
   convert_files ext cfg d posts (pre @ rest) fs = convert_files ext cfg d posts rest fs'"
proof (induction pre arbitrary: fs)
  case Nil
  then show ?case by simp
next
  case (Cons f pre)
  show ?case
  proof (cases "endswith f ''.md''")
    case False
    with Cons show ?thesis by simp
  next
    case True
    obtain r fs1 where c: "convert_file ext cfg d posts f fs = (r, fs1)"
      by (cases "convert_file ext cfg d posts f fs")
    show ?thesis
    proof (cases r)
      case (Inl e)
      with Cons.prems True c show ?thesis by simp
    next
      case (Inr u)
      with Cons.prems True c have "convert_files ext cfg d posts pre fs1 = (Inr (), fs')" by simp
      from Cons.IH [OF this] True c Inr show ?thesis by simp
    qed
  qed
qed

lemma convert_files_raise:
  "endswith f ''.md'' \<Longrightarrow> convert_file ext cfg d posts f fs = (Inl e, fs') \<Longrightarrow>
   convert_files ext cfg d posts (f # rest) fs = (Inl e, fs')"
  by simp

lemma convert_file_template_missing:
  assumes "ext_read_file ext (path_join d [f]) fs = (Inr text, fs')"
    and "ext_get_template ext (template_name (fst (convert_to_html (ext_markdown ext) text))) = None"
  shows "convert_file ext cfg d posts f fs =
           (Inl (TemplateNotFound (template_name (fst (convert_to_html (ext_markdown ext) text)))), fs')"
proof -
  obtain metadata body where c: "convert_to_html (ext_markdown ext) text = (metadata, body)"
    by (cases "convert_to_html (ext_markdown ext) text")
  with assms(2) have "render (ext_get_template ext) metadata body =
      Inl (TemplateNotFound (template_name metadata))"
    by (simp add: render_not_found)
  with assms(1) c show ?thesis
    by (simp add: convert_file_def and_then_def)
qed

lemma convert_markdown_template_missing:
  assumes "ext_listdir ext d fs0 = (Inr (pre @ f # rest), fs1)"
    and "convert_files ext cfg d posts pre fs1 = (Inr (), fs2)"
    and "endswith f ''.md''"
    and "ext_read_file ext (path_join d [f]) fs2 = (Inr text, fs3)"
    and "ext_get_template ext (template_name (fst (convert_to_html (ext_markdown ext) text))) = None"
  shows "convert_markdown ext cfg d posts fs0 =
           (Inl (TemplateNotFound (template_name (fst (convert_to_html (ext_markdown ext) text)))), fs3)"
proof -
  have "convert_files ext cfg d posts (pre @ f # rest) fs1 =
          convert_files ext cfg d posts (f # rest) fs2"
    using assms(2) by (rule convert_files_append)
  also have "\<dots> = (Inl (TemplateNotFound
      (template_name (fst (convert_to_html (ext_markdown ext) text)))), fs3)"
    using assms(3) convert_file_template_missing [OF assms(4,5)] by (rule convert_files_raise)
  finally show ?thesis
    using assms(1) by (simp add: convert_markdown_def and_then_value)
qed

lemma build_raise_in_main:
  assumes "collect_posts ext cfg fs = (Inr posts, fsa)"
    and "reset_dist ext cfg fsa = (Inr (), fsb)"
    and "convert_markdown ext cfg (INPUT_DIR cfg) posts fsb = (Inl e, fs')"
  shows "build_site ext cfg fs =
           (Inl e, [CollectPostIndex, ResetOutputTree, ConvertMainDir], fs')"
proof -
  have 1: "in_stage CollectPostIndex (collect_posts ext cfg) ([], fs) =
             (Inr posts, [CollectPostIndex], fsa)"
    using assms(1) by (simp add: in_stage_def)
  have 2: "in_stage ResetOutputTree (reset_dist ext cfg) ([CollectPostIndex], fsa) =
             (Inr (), [CollectPostIndex, ResetOutputTree], fsb)"
    using assms(2) by (simp add: in_stage_def)
  have 3: "in_stage ConvertMainDir (convert_markdown ext cfg (INPUT_DIR cfg) posts)
             ([CollectPostIndex, ResetOutputTree], fsb) =
             (Inl e, [CollectPostIndex, ResetOutputTree, ConvertMainDir], fs')"
    using assms(3) by (simp add: in_stage_def)
  show ?thesis
    unfolding build_site_def by (simp add: and_then_def 1 2 3 del: path_join.simps)
qed

lemma build_raise_in_blog:
  assumes "collect_posts ext cfg fs = (Inr posts, fsa)"
    and "reset_dist ext cfg fsa = (Inr (), fsb)"
    and "convert_markdown ext cfg (INPUT_DIR cfg) posts fsb = (Inr (), fsc)"
    and "convert_markdown ext cfg (path_join (INPUT_DIR cfg) [''blog'']) posts fsc = (Inl e, fs')"
  shows "build_site ext cfg fs =
           (Inl e, [CollectPostIndex, ResetOutputTree, ConvertMainDir, ConvertBlogDir], fs')"
proof -
  have 1: "in_stage CollectPostIndex (collect_posts ext cfg) ([], fs) =
             (Inr posts, [CollectPostIndex], fsa)"
    using assms(1) by (simp add: in_stage_def)
  have 2: "in_stage ResetOutputTree (reset_dist ext cfg) ([CollectPostIndex], fsa) =
             (Inr (), [CollectPostIndex, ResetOutputTree], fsb)"
    using assms(2) by (simp add: in_stage_def)
  have 3: "in_stage ConvertMainDir (convert_markdown ext cfg (INPUT_DIR cfg) posts)
             ([CollectPostIndex, ResetOutputTree], fsb) =
             (Inr (), [CollectPostIndex, ResetOutputTree, ConvertMainDir], fsc)"
    using assms(3) by (simp add: in_stage_def)
  have 4: "in_stage ConvertBlogDir
             (convert_markdown ext cfg (path_join (INPUT_DIR cfg) [''blog'']) posts)
             ([CollectPostIndex, ResetOutputTree, ConvertMainDir], fsc) =
             (Inl e, [CollectPostIndex, ResetOutputTree, ConvertMainDir, ConvertBlogDir], fs')"
    using assms(4) by (simp add: in_stage_def del: path_join.simps)
  show ?thesis
    unfolding build_site_def by (simp add: and_then_def 1 2 3 4 del: path_join.simps)
qed

section \<open>The generator on the example sites\<close>

lemmas path_eval = startswith_def endswith_def suffix_to_prefix

lemma journal_listdir:
  "ext_listdir (journal_services dirs files) d journal =
     (case map_of dirs d of None \<Rightarrow> Inl (OSError d) | Some names \<Rightarrow> Inr names,
      journal @ [Listdir d])"
  by (simp add: journal_services_def)

lemma journal_read_file:
  "ext_read_file (journal_services dirs files) p journal =
     (case map_of files p of None \<Rightarrow> Inl (OSError p) | Some text \<Rightarrow> Inr text,
      journal @ [ReadFile p])"
  by (simp add: journal_services_def)

lemma journal_write_file:
  "ext_write_file (journal_services dirs files) p text journal =
     (Inr (), journal @ [WriteFile p text])"
  by (simp add: journal_services_def)

lemma journal_rmtree: "ext_rmtree (journal_services dirs files) d journal = journal @ [Rmtree d]"
  by (simp add: journal_services_def)

lemma journal_makedirs:
  "ext_makedirs (journal_services dirs files) d journal = (Inr (), journal @ [Makedirs d])"
  by (simp add: journal_services_def)

lemma journal_mkdir:
  "ext_mkdir (journal_services dirs files) d journal = (Inr (), journal @ [Mkdir d])"
  by (simp add: journal_services_def)

lemma journal_copyfile:
  "ext_copyfile (journal_services dirs files) s d journal = (Inr (), journal @ [Copyfile s d])"
  by (simp add: journal_services_def)

lemma journal_sass_compile:
  "ext_sass_compile (journal_services dirs files) i out style journal =
     (Inr (), journal @ [SassCompile i out style])"
  by (simp add: journal_services_def)

lemma journal_markdown: "ext_markdown (journal_services dirs files) = (\<lambda>body. body)"
  by (simp add: journal_services_def)

lemma journal_unicode: "ext_unicode (journal_services dirs files) = ascii_tables"
  by (simp add: journal_services_def)

lemma journal_get_template: "ext_get_template (journal_services dirs files) = example_templates"
  by (simp add: journal_services_def)

lemmas journal_calls = journal_listdir journal_read_file journal_write_file journal_rmtree
  journal_makedirs journal_mkdir journal_copyfile journal_sass_compile journal_markdown
  journal_get_template journal_unicode

lemma example_dirs_fields:
  "INPUT_DIR example_config = ''content''" "OUTPUT_DIR example_config = ''dist''"
  "STATIC_DIR example_config = ''static''" "DEBUG example_config = False"
  "CLIENT_SIDE_ROUTING example_config = False" "CSS_OUTPUT_STYLE example_config = ''compact''"
  "POST_LIST_TARGET example_config = ''<!--posts-->''"
  by (simp_all add: example_config_def)

lemma example_listings:
  "map_of example_dirs ''content'' = Some [''index.md'', ''notes.txt'']"
  "map_of example_dirs ''content/blog'' = Some [''my-first-post.md'']"
  "map_of example_dirs ''static/js'' = Some [''dev.js'']"
  "map_of example_dirs ''static/img'' = Some []"
  by (simp_all add: example_dirs_def)

lemma example_contents:
  "map_of example_files ''content/index.md'' =
     Some ''---\<newline>template: default.html\<newline>---\<newline>Welcome''"
  "map_of example_files ''content/blog/my-first-post.md'' =
     Some ''---\<newline>template: post.html\<newline>---\<newline>Hello''"
  by (simp_all add: example_files_def)

lemma journal_reset_dist:
  "reset_dist (journal_services dirs files) example_config journal =
     (Inr (), journal @ [Rmtree ''dist'', Makedirs ''dist'', Makedirs ''dist/html/blog''])"
  by (simp add: reset_dist_def and_then_def journal_calls example_dirs_fields path_eval)

lemma journal_compile_sass:
  "compile_sass (journal_services dirs files) example_config journal =
     (Inr (), journal @ [SassCompile ''static/scss'' ''dist/css'' ''compact''])"
  by (simp add: compile_sass_def Let_def journal_calls example_dirs_fields path_eval)

lemma example_collect_posts:
  "collect_posts (journal_services example_dirs example_files) example_config journal =
     (Inr (titled_link ascii_tables ''my-first-post.md''), journal @ [Listdir ''content/blog''])"
  by (simp add: collect_posts_def and_then_def journal_calls example_dirs_fields path_eval
      example_listings collect_loop_links del: collect_loop.simps)

lemma example_copy_js:
  "copy_static_files (journal_services example_dirs example_files) example_config ''js'' journal =
     (Inr (), journal @ [Mkdir ''dist/js'', Listdir ''static/js'',
        Copyfile ''static/js/dev.js'' ''dist/js/dev.js''])"
  by (simp add: copy_static_files_def Let_def and_then_def journal_calls example_dirs_fields
      path_eval example_listings)

lemma example_copy_img:
  "copy_static_files (journal_services example_dirs example_files) example_config ''img'' journal =
     (Inr (), journal @ [Mkdir ''dist/img'', Listdir ''static/img''])"
  by (simp add: copy_static_files_def Let_def and_then_def journal_calls example_dirs_fields
      path_eval example_listings)

lemma example_index_parsed:
  "convert_to_html (\<lambda>body. body) ''---\<newline>template: default.html\<newline>---\<newline>Welcome'' =
     ([(''template'', ''default.html'')], ''Welcome'')"
  by (simp add: convert_to_html_def startswith_def split_once_def dict_set_def strip_def
      isspace_def)

lemma example_post_parsed:
  "convert_to_html (\<lambda>body. body) ''---\<newline>template: post.html\<newline>---\<newline>Hello'' =
     ([(''template'', ''post.html'')], ''Hello'')"
  by (simp add: convert_to_html_def startswith_def split_once_def dict_set_def strip_def
      isspace_def)

lemma example_render:
  "t = ''default.html'' \<or> t = ''post.html'' \<Longrightarrow>
   render example_templates [(''template'', t)] body = Inr (''<body>'' @ body @ ''<!--posts--></body>'')"
  by (auto simp: render_def template_name_def dict_get_def example_templates_def page_template_def)

lemma example_convert_main:
  "convert_markdown (journal_services example_dirs example_files) example_config ''content'' posts
     journal =
     (Inr (), journal @ [Listdir ''content'', ReadFile ''content/index.md'',
        WriteFile ''dist/index.html''
          (inject_html example_config ''<body>Welcome<!--posts--></body>'' posts)])"
  by (simp add: convert_markdown_def convert_file_def Let_def and_then_def journal_calls path_eval
      example_listings example_contents example_index_parsed example_render
      determine_html_subdir_def dict_get_def example_dirs_fields output_filename_def
      replace_str.simps)

lemma example_convert_blog:
  "convert_markdown (journal_services example_dirs example_files) example_config ''content/blog''
     posts journal =
     (Inr (), journal @ [Listdir ''content/blog'', ReadFile ''content/blog/my-first-post.md'',
        WriteFile ''dist/html/blog/my-first-post.html''
          (inject_html example_config ''<body>Hello<!--posts--></body>'' posts)])"
  by (simp add: convert_markdown_def convert_file_def Let_def and_then_def journal_calls path_eval
      example_listings example_contents example_post_parsed example_render
      determine_html_subdir_def dict_get_def example_dirs_fields output_filename_def
      replace_str.simps)

lemma example_build:
  "build_site (journal_services example_dirs example_files) example_config [] =
     (Inr (),
      [CollectPostIndex, ResetOutputTree, ConvertMainDir, ConvertBlogDir, CopyStaticJS,
       CopyStaticImg, CompileStylesheets],
      [Listdir ''content/blog'',
       Rmtree ''dist'', Makedirs ''dist'', Makedirs ''dist/html/blog'',
       Listdir ''content'', ReadFile ''content/index.md'',
       WriteFile ''dist/index.html''
         (inject_html example_config ''<body>Welcome<!--posts--></body>''
            (titled_link ascii_tables ''my-first-post.md'')),
       Listdir ''content/blog'', ReadFile ''content/blog/my-first-post.md'',
       WriteFile ''dist/html/blog/my-first-post.html''
         (inject_html example_config ''<body>Hello<!--posts--></body>''
            (titled_link ascii_tables ''my-first-post.md'')),
       Mkdir ''dist/js'', Listdir ''static/js'', Copyfile ''static/js/dev.js'' ''dist/js/dev.js'',
       Mkdir ''dist/img'', Listdir ''static/img'',
       SassCompile ''static/scss'' ''dist/css'' ''compact''])"
  unfolding build_site_def
  by (simp add: and_then_def in_stage_def example_collect_posts journal_reset_dist
      example_convert_main example_convert_blog [simplified] example_copy_js example_copy_img
      journal_compile_sass example_dirs_fields path_eval)

lemma broken_listings:
  "map_of broken_dirs ''content'' = Some ([''first.md''] @ ''second.md'' # [''third.md''])"
  "map_of broken_dirs ''content/blog'' = Some []"
  by (simp_all add: broken_dirs_def)

lemma broken_contents:
  "map_of broken_files ''content/first.md'' =
     Some ''---\<newline>template: default.html\<newline>---\<newline>One''"
  "map_of broken_files ''content/second.md'' =
     Some ''---\<newline>template: missing.html\<newline>---\<newline>Two''"
  by (simp_all add: broken_files_def)

lemma draft_listings:
  "map_of draft_dirs ''content'' = Some [''index.md'']"
  "map_of draft_dirs ''content/blog'' = Some ([] @ ''draft.md'' # [''my-first-post.md''])"
  by (simp_all add: draft_dirs_def)

lemma draft_contents:
  "map_of draft_files ''content/index.md'' =
     Some ''---\<newline>template: default.html\<newline>---\<newline>Welcome''"
  "map_of draft_files ''content/blog/draft.md'' =
     Some ''---\<newline>template: draft.html\<newline>---\<newline>Soon''"
  by (simp_all add: draft_files_def)

lemma broken_first_parsed:
  "convert_to_html (\<lambda>body. body) ''---\<newline>template: default.html\<newline>---\<newline>One'' =
     ([(''template'', ''default.html'')], ''One'')"
  by (simp add: convert_to_html_def startswith_def split_once_def dict_set_def strip_def
      isspace_def)

lemma broken_second_parsed:
  "convert_to_html (\<lambda>body. body) ''---\<newline>template: missing.html\<newline>---\<newline>Two'' =
     ([(''template'', ''missing.html'')], ''Two'')"
  by (simp add: convert_to_html_def startswith_def split_once_def dict_set_def strip_def
      isspace_def)

lemma draft_parsed:
  "convert_to_html (\<lambda>body. body) ''---\<newline>template: draft.html\<newline>---\<newline>Soon'' =
     ([(''template'', ''draft.html'')], ''Soon'')"
  by (simp add: convert_to_html_def startswith_def split_once_def dict_set_def strip_def
      isspace_def)

lemma broken_collect_posts:
  "collect_posts (journal_services broken_dirs broken_files) example_config journal =
     (Inr [], journal @ [Listdir ''content/blog''])"
  by (simp add: collect_posts_def and_then_def journal_calls example_dirs_fields path_eval
      broken_listings)

lemma draft_collect_posts:
  "collect_posts (journal_services draft_dirs draft_files) example_config journal =
     (Inr (titled_link ascii_tables ''draft.md'' @ titled_link ascii_tables ''my-first-post.md''),
      journal @ [Listdir ''content/blog''])"
  by (simp add: collect_posts_def and_then_def journal_calls example_dirs_fields path_eval
      draft_listings collect_loop_links del: collect_loop.simps)

lemma broken_first_converted:
  "convert_files (journal_services broken_dirs broken_files) example_config ''content'' posts
     [''first.md''] journal =
     (Inr (), journal @ [ReadFile ''content/first.md'',
        WriteFile ''dist/first.html''
          (inject_html example_config ''<body>One<!--posts--></body>'' posts)])"
  by (simp add: convert_file_def Let_def and_then_def journal_calls path_eval
      broken_contents broken_first_parsed example_render
      determine_html_subdir_def dict_get_def example_dirs_fields output_filename_def
      replace_str.simps)

lemma draft_convert_main:
  "convert_markdown (journal_services draft_dirs draft_files) example_config ''content'' posts
     journal =
     (Inr (), journal @ [Listdir ''content'', ReadFile ''content/index.md'',
        WriteFile ''dist/index.html''
          (inject_html example_config ''<body>Welcome<!--posts--></body>'' posts)])"
  by (simp add: convert_markdown_def convert_file_def Let_def and_then_def journal_calls path_eval
      draft_listings draft_contents example_index_parsed example_render
      determine_html_subdir_def dict_get_def example_dirs_fields output_filename_def
      replace_str.simps)

section \<open>Properties of the output file name\<close>

lemma convert_file_writes:
  assumes "ext_read_file ext (path_join d [f]) fs = (Inr text, fs1)"
    and "render (ext_get_template ext) (fst (convert_to_html (ext_markdown ext) text))
           (snd (convert_to_html (ext_markdown ext) text)) = Inr page"
  shows "convert_file ext cfg d posts f fs =
           ext_write_file ext
             (path_join (determine_html_subdir cfg (fst (convert_to_html (ext_markdown ext) text)))
                [output_filename f])
             (inject_html cfg page posts) fs1"
proof -
  obtain metadata body where c: "convert_to_html (ext_markdown ext) text = (metadata, body)"
    by (cases "convert_to_html (ext_markdown ext) text")
  with assms show ?thesis
    by (simp add: convert_file_def and_then_def Let_def del: path_join.simps)
qed

text \<open>
  C10. When a source file \<open>f\<close> is read and rendered, \<open>convert_file\<close> writes the page to
  the routed directory under the name \<open>output_filename f\<close>, the value of
  \<^verbatim>\<open>filename.replace('.md', '.html')\<close>. Every occurrence of \<open>.md\<close> in the name is
  replaced, wherever it stands: the function maps an occurrence between two texts to
  \<open>.html\<close> between their images, and it changes nothing in a text without an occurrence.
  So \<open>a.md.md\<close> is written as \<open>a.html.html\<close> and \<open>notes.mdx.md\<close> as
  \<open>notes.htmlx.html\<close>.
\<close>

theorem output_filename_replaces_every_md:
  "(ext_read_file ext (path_join d [f]) fs = (Inr text, fs1) \<and>
    render (ext_get_template ext) (fst (convert_to_html (ext_markdown ext) text))
      (snd (convert_to_html (ext_markdown ext) text)) = Inr page \<longrightarrow>
      convert_file ext cfg d posts f fs =
        ext_write_file ext
          (path_join (determine_html_subdir cfg (fst (convert_to_html (ext_markdown ext) text)))
             [output_filename f])
          (inject_html cfg page posts) fs1) \<and>
   output_filename (a @ ''.md'' @ b) = output_filename a @ ''.html'' @ output_filename b \<and>
   (\<not> occurs_in ''.md'' s \<longrightarrow> output_filename s = s) \<and>
   output_filename ''a.md.md'' = ''a.html.html'' \<and>
   output_filename ''notes.mdx.md'' = ''notes.htmlx.html''"
proof -
  have "output_filename ''a.md.md'' = ''a.html.html''"
    by (simp add: output_filename_def replace_str.simps)
  moreover have "output_filename ''notes.mdx.md'' = ''notes.htmlx.html''"
    by (simp add: output_filename_def replace_str.simps)
  moreover have "output_filename (a @ ''.md'' @ b) =
      output_filename a @ ''.html'' @ output_filename b"
    unfolding output_filename_def by (rule replace_md_append)
  moreover have "\<not> occurs_in ''.md'' s \<longrightarrow> output_filename s = s"
    unfolding output_filename_def by (simp add: replace_str_absent)
  moreover have "ext_read_file ext (path_join d [f]) fs = (Inr text, fs1) \<and>
    render (ext_get_template ext) (fst (convert_to_html (ext_markdown ext) text))
      (snd (convert_to_html (ext_markdown ext) text)) = Inr page \<longrightarrow>
      convert_file ext cfg d posts f fs =
        ext_write_file ext
          (path_join (determine_html_subdir cfg (fst (convert_to_html (ext_markdown ext) text)))
             [output_filename f])
          (inject_html cfg page posts) fs1"
    using convert_file_writes [of ext d f fs "text" fs1 page cfg posts] by blast
  ultimately show ?thesis by (intro conjI)
qed

theorem output_filename_replaces_every_md_witness:
  "convert_file (journal_services example_dirs example_files) example_config ''content'' ''links''
     ''index.md'' [] =
     (Inr (), [ReadFile ''content/index.md'',
        WriteFile ''dist/index.html''
          (inject_html example_config ''<body>Welcome<!--posts--></body>'' ''links'')]) \<and>
   output_filename (''notes'' @ ''.md'' @ ''x.md'') = ''notes.htmlx.html'' \<and>
   \<not> occurs_in ''.md'' ''notes'' \<and> output_filename ''notes'' = ''notes'' \<and>
   output_filename ''x.md'' = ''x.html''"
proof -
  let ?J = "journal_services example_dirs example_files"
  let ?text = "''---\<newline>template: default.html\<newline>---\<newline>Welcome''"
  have n: "\<not> occurs_in ''.md'' ''notes''" by simp
  have x: "output_filename ''x.md'' = ''x.html''" "output_filename ''index.md'' = ''index.html''"
    by (simp_all add: output_filename_def replace_str.simps)
  have r: "ext_read_file ?J (path_join ''content'' [''index.md'']) [] =
      (Inr ?text, [ReadFile ''content/index.md''])"
    by (simp add: journal_calls example_contents path_eval)
  have p: "render (ext_get_template ?J) (fst (convert_to_html (ext_markdown ?J) ?text))
      (snd (convert_to_html (ext_markdown ?J) ?text)) = Inr ''<body>Welcome<!--posts--></body>''"
    by (simp add: journal_calls example_index_parsed example_render)
  note t = output_filename_replaces_every_md [of ?J "''content''" "''index.md''" "[]" ?text
      "[ReadFile ''content/index.md'']" "''<body>Welcome<!--posts--></body>''" example_config
      "''links''" "''notes''" "''x.md''" "''notes''"]
  from t r p have "convert_file ?J example_config ''content'' ''links'' ''index.md'' [] =
      ext_write_file ?J
        (path_join (determine_html_subdir example_config (fst (convert_to_html (ext_markdown ?J) ?text)))
           [output_filename ''index.md''])
        (inject_html example_config ''<body>Welcome<!--posts--></body>'' ''links'')
        [ReadFile ''content/index.md'']"
    by blast
  then have 0: "convert_file ?J example_config ''content'' ''links'' ''index.md'' [] =
     (Inr (), [ReadFile ''content/index.md'',
        WriteFile ''dist/index.html''
          (inject_html example_config ''<body>Welcome<!--posts--></body>'' ''links'')])"
    by (simp add: journal_calls example_index_parsed determine_html_subdir_def dict_get_def
        example_dirs_fields x path_eval)
  from t n have 1: "output_filename ''notes'' = ''notes''" by blast
  from t have "output_filename (''notes'' @ ''.md'' @ ''x.md'') =
      output_filename ''notes'' @ ''.html'' @ output_filename ''x.md''" by blast
  then show ?thesis using n x 0 1 by simp
qed

section \<open>The order of the stages and the end of a build\<close>

text \<open>
  C2, as amended. In every build the stages are entered in the order CollectPostIndex,
  ResetOutputTree, ConvertMainDir, ConvertBlogDir, CopyStaticJS, CopyStaticImg,
  CompileStylesheets: the stages entered are a non-empty initial part of this list, and all
  of it when the build ends without an exception. So the post index is collected before
  the output tree is reset.
\<close>

theorem build_stage_order:
  "prefix (stages_entered (build_site ext cfg fs))
     [CollectPostIndex, ResetOutputTree, ConvertMainDir, ConvertBlogDir, CopyStaticJS,
      CopyStaticImg, CompileStylesheets] \<and>
   stages_entered (build_site ext cfg fs) \<noteq> [] \<and>
   (fst (build_site ext cfg fs) = Inr () \<longrightarrow>
      stages_entered (build_site ext cfg fs) =
        [CollectPostIndex, ResetOutputTree, ConvertMainDir, ConvertBlogDir, CopyStaticJS,
         CopyStaticImg, CompileStylesheets])"
  using build_stages [of ext cfg fs] unfolding code_order_def by auto

theorem build_stage_order_witness:
  "fst (build_site (journal_services example_dirs example_files) example_config []) = Inr () \<and>
   stages_entered (build_site (journal_services example_dirs example_files) example_config []) =
     [CollectPostIndex, ResetOutputTree, ConvertMainDir, ConvertBlogDir, CopyStaticJS,
      CopyStaticImg, CompileStylesheets]"
proof -
  have "fst (build_site (journal_services example_dirs example_files) example_config []) = Inr ()"
    by (simp add: example_build)
  with build_stage_order [of "journal_services example_dirs example_files" example_config "[]"]
  show ?thesis by blast
qed

text \<open>
  C2 as stated fails: the build of the example site enters CollectPostIndex first and
  ResetOutputTree second, which is not the order of the specification, and its first two
  calls of the file system are the listing of the blog directory and the removal of the
  output tree.
\<close>

theorem build_stage_order_counterexample:
  "stages_entered (build_site (journal_services example_dirs example_files) example_config []) =
     [CollectPostIndex, ResetOutputTree, ConvertMainDir, ConvertBlogDir, CopyStaticJS,
      CopyStaticImg, CompileStylesheets] \<and>
   stages_entered (build_site (journal_services example_dirs example_files) example_config []) \<noteq>
     spec_order \<and>
   take 2 (snd (snd (build_site (journal_services example_dirs example_files) example_config []))) =
     [Listdir ''content/blog'', Rmtree ''dist'']"
  by (simp add: example_build stages_entered_def spec_order_def)

text \<open>
  C8. The directory \<open>d\<close> lists \<open>pre\<close>, then the Markdown file \<open>f\<close>, then \<open>rest\<close>; the
  files of \<open>pre\<close> are converted, \<open>f\<close> is read, and the template its metadata names (or
  \<open>default.html\<close> without a \<open>template\<close> key) does not resolve. Then the conversion of
  the directory ends with the template-resolution error in the state reached by reading
  \<open>f\<close>: \<open>f\<close> is not written and nothing of \<open>rest\<close> is read, converted or written. The
  error is not caught by the build: when \<open>d\<close> is the main directory the build ends with
  it after the stage ConvertMainDir, and when \<open>d\<close> is the blog directory after the stage
  ConvertBlogDir, in that same state, and no later stage is entered.
\<close>

theorem missing_template_aborts_build:
  assumes "ext_listdir ext d fs0 = (Inr (pre @ f # rest), fs1)"
    and "convert_files ext cfg d posts pre fs1 = (Inr (), fs2)"
    and "endswith f ''.md''"
    and "ext_read_file ext (path_join d [f]) fs2 = (Inr text, fs3)"
    and "ext_get_template ext (template_name (fst (convert_to_html (ext_markdown ext) text))) = None"
  shows "convert_markdown ext cfg d posts fs0 =
           (Inl (TemplateNotFound (template_name (fst (convert_to_html (ext_markdown ext) text)))), fs3) \<and>
         (d = INPUT_DIR cfg \<and> collect_posts ext cfg fs = (Inr posts, fsa) \<and>
          reset_dist ext cfg fsa = (Inr (), fs0) \<longrightarrow>
            build_site ext cfg fs =
              (Inl (TemplateNotFound (template_name (fst (convert_to_html (ext_markdown ext) text)))),
               [CollectPostIndex, ResetOutputTree, ConvertMainDir], fs3)) \<and>
         (d = path_join (INPUT_DIR cfg) [''blog''] \<and> collect_posts ext cfg fs = (Inr posts, fsa) \<and>
          reset_dist ext cfg fsa = (Inr (), fsb) \<and>
          convert_markdown ext cfg (INPUT_DIR cfg) posts fsb = (Inr (), fs0) \<longrightarrow>
            build_site ext cfg fs =
              (Inl (TemplateNotFound (template_name (fst (convert_to_html (ext_markdown ext) text)))),
               [CollectPostIndex, ResetOutputTree, ConvertMainDir, ConvertBlogDir], fs3))"
proof -
  note c = convert_markdown_template_missing [OF assms]
  show ?thesis
  proof (intro conjI impI)
    show "convert_markdown ext cfg d posts fs0 =
           (Inl (TemplateNotFound (template_name (fst (convert_to_html (ext_markdown ext) text)))), fs3)"
      by (rule c)
  next
    assume a: "d = INPUT_DIR cfg \<and> collect_posts ext cfg fs = (Inr posts, fsa) \<and>
          reset_dist ext cfg fsa = (Inr (), fs0)"
    with c have "convert_markdown ext cfg (INPUT_DIR cfg) posts fs0 =
           (Inl (TemplateNotFound (template_name (fst (convert_to_html (ext_markdown ext) text)))), fs3)"
      by simp
    with a show "build_site ext cfg fs =
              (Inl (TemplateNotFound (template_name (fst (convert_to_html (ext_markdown ext) text)))),
               [CollectPostIndex, ResetOutputTree, ConvertMainDir], fs3)"
      by (intro build_raise_in_main [where fsa = fsa and fsb = fs0 and posts = posts]) simp_all
  next
    assume a: "d = path_join (INPUT_DIR cfg) [''blog''] \<and> collect_posts ext cfg fs = (Inr posts, fsa) \<and>
          reset_dist ext cfg fsa = (Inr (), fsb) \<and>
          convert_markdown ext cfg (INPUT_DIR cfg) posts fsb = (Inr (), fs0)"
    with c have "convert_markdown ext cfg (path_join (INPUT_DIR cfg) [''blog'']) posts fs0 =
           (Inl (TemplateNotFound (template_name (fst (convert_to_html (ext_markdown ext) text)))), fs3)"
      by simp
    with a show "build_site ext cfg fs =
              (Inl (TemplateNotFound (template_name (fst (convert_to_html (ext_markdown ext) text)))),
               [CollectPostIndex, ResetOutputTree, ConvertMainDir, ConvertBlogDir], fs3)"
      by (intro build_raise_in_blog [where fsa = fsa and fsb = fsb and fsc = fs0 and posts = posts])
        simp_all
  qed
qed

theorem missing_template_aborts_build_witness:
  "build_site (journal_services broken_dirs broken_files) example_config [] =
     (Inl (TemplateNotFound ''missing.html''),
      [CollectPostIndex, ResetOutputTree, ConvertMainDir],
      [Listdir ''content/blog'', Rmtree ''dist'', Makedirs ''dist'', Makedirs ''dist/html/blog'',
       Listdir ''content'', ReadFile ''content/first.md'',
       WriteFile ''dist/first.html'' (inject_html example_config ''<body>One<!--posts--></body>'' []),
       ReadFile ''content/second.md'']) \<and>
   build_site (journal_services draft_dirs draft_files) example_config [] =
     (Inl (TemplateNotFound ''draft.html''),
      [CollectPostIndex, ResetOutputTree, ConvertMainDir, ConvertBlogDir],
      [Listdir ''content/blog'', Rmtree ''dist'', Makedirs ''dist'', Makedirs ''dist/html/blog'',
       Listdir ''content'', ReadFile ''content/index.md'',
       WriteFile ''dist/index.html''
         (inject_html example_config ''<body>Welcome<!--posts--></body>''
            (titled_link ascii_tables ''draft.md'' @ titled_link ascii_tables ''my-first-post.md'')),
       Listdir ''content/blog'', ReadFile ''content/blog/draft.md''])"
proof -
  let ?B = "journal_services broken_dirs broken_files"
  let ?D = "journal_services draft_dirs draft_files"
  let ?j2 = "[Listdir ''content/blog'', Rmtree ''dist'', Makedirs ''dist'', Makedirs ''dist/html/blog'']"
  have md: "endswith ''second.md'' ''.md''" "endswith ''draft.md'' ''.md''"
    by (simp_all add: path_eval)
  have b1: "ext_listdir ?B ''content'' ?j2 =
      (Inr ([''first.md''] @ ''second.md'' # [''third.md'']), ?j2 @ [Listdir ''content''])"
    by (simp add: journal_calls broken_listings)
  have b2: "convert_files ?B example_config ''content'' [] [''first.md''] (?j2 @ [Listdir ''content'']) =
      (Inr (), (?j2 @ [Listdir ''content'']) @ [ReadFile ''content/first.md'',
        WriteFile ''dist/first.html'' (inject_html example_config ''<body>One<!--posts--></body>'' [])])"
    by (rule broken_first_converted)
  have b3: "ext_read_file ?B (path_join ''content'' [''second.md''])
        ((?j2 @ [Listdir ''content'']) @ [ReadFile ''content/first.md'',
        WriteFile ''dist/first.html'' (inject_html example_config ''<body>One<!--posts--></body>'' [])]) =
      (Inr ''---\<newline>template: missing.html\<newline>---\<newline>Two'',
       ((?j2 @ [Listdir ''content'']) @ [ReadFile ''content/first.md'',
        WriteFile ''dist/first.html'' (inject_html example_config ''<body>One<!--posts--></body>'' [])])
       @ [ReadFile ''content/second.md''])"
    by (simp add: journal_calls broken_contents path_eval)
  have b4: "ext_get_template ?B (template_name (fst (convert_to_html (ext_markdown ?B)
        ''---\<newline>template: missing.html\<newline>---\<newline>Two''))) = None"
    by (simp add: journal_calls broken_second_parsed template_name_def dict_get_def
        example_templates_def)
  have b5: "''content'' = INPUT_DIR example_config \<and>
      collect_posts ?B example_config [] = (Inr [], [Listdir ''content/blog'']) \<and>
      reset_dist ?B example_config [Listdir ''content/blog''] = (Inr (), ?j2)"
    by (simp add: broken_collect_posts journal_reset_dist example_dirs_fields)
  note t1 = missing_template_aborts_build [OF b1 b2 md(1) b3 b4,
      of "[]" "[Listdir ''content/blog'']" "[]", THEN conjunct2, THEN conjunct1, rule_format, OF b5]
  let ?P = "titled_link ascii_tables ''draft.md'' @ titled_link ascii_tables ''my-first-post.md''"
  let ?j3 = "?j2 @ [Listdir ''content'', ReadFile ''content/index.md'',
       WriteFile ''dist/index.html''
         (inject_html example_config ''<body>Welcome<!--posts--></body>'' ?P)]"
  have d1: "ext_listdir ?D ''content/blog'' ?j3 =
      (Inr ([] @ ''draft.md'' # [''my-first-post.md'']), ?j3 @ [Listdir ''content/blog''])"
    by (simp add: journal_calls draft_listings)
  have d2: "convert_files ?D example_config ''content/blog'' ?P [] (?j3 @ [Listdir ''content/blog'']) =
      (Inr (), ?j3 @ [Listdir ''content/blog''])"
    by simp
  have d3: "ext_read_file ?D (path_join ''content/blog'' [''draft.md'']) (?j3 @ [Listdir ''content/blog'']) =
      (Inr ''---\<newline>template: draft.html\<newline>---\<newline>Soon'',
       (?j3 @ [Listdir ''content/blog'']) @ [ReadFile ''content/blog/draft.md''])"
    by (simp add: journal_calls draft_contents path_eval)
  have d4: "ext_get_template ?D (template_name (fst (convert_to_html (ext_markdown ?D)
        ''---\<newline>template: draft.html\<newline>---\<newline>Soon''))) = None"
    by (simp add: journal_calls draft_parsed template_name_def dict_get_def
        example_templates_def)
  have d5: "''content/blog'' = path_join (INPUT_DIR example_config) [''blog''] \<and>
      collect_posts ?D example_config [] = (Inr ?P, [Listdir ''content/blog'']) \<and>
      reset_dist ?D example_config [Listdir ''content/blog''] = (Inr (), ?j2) \<and>
      convert_markdown ?D example_config (INPUT_DIR example_config) ?P ?j2 = (Inr (), ?j3)"
    by (simp add: draft_collect_posts journal_reset_dist draft_convert_main example_dirs_fields
        path_eval)
  note t2 = missing_template_aborts_build [OF d1 d2 md(2) d3 d4,
      of "[]" "[Listdir ''content/blog'']" "?j2",
      THEN conjunct2, THEN conjunct2, rule_format, OF d5]
  from t1 t2 show ?thesis
    by (simp add: journal_calls broken_second_parsed draft_parsed template_name_def dict_get_def)
qed

end
